theory Spec2Isabelle
  imports Main
begin

section \<open>The provisioning job of jobs/provision_device.py\<close>

text \<open>
  The job talks to three collaborators (the secret store, the Golden Config store and a
  NAPALM driver) and reports through the job logger. None of its methods returns a
  status: \<open>_deploy_config\<close> and \<open>run\<close> return \<open>None\<close>. What can be observed of one run
  is the sequence of driver calls, the sequence of log records and whether an exception
  leaves the method. The model threads exactly these through every function.
\<close>

subsection \<open>Exceptions\<close>

text \<open>
  An exception is modelled by the \<open>except\<close> clause of \<open>_deploy_config\<close> that catches it
  (\<open>ConnectionException\<close>, \<open>CommitError\<close>, \<open>ReplaceConfigException\<close>, or any other
  subclass of \<open>Exception\<close>), by \<open>type(e).__name__\<close> and by \<open>str(e)\<close>. Exceptions outside
  \<open>Exception\<close> (\<open>KeyboardInterrupt\<close>, \<open>SystemExit\<close>) are not raised by the collaborators
  and are not modelled.
\<close>

datatype exn_kind = ConnectionException | CommitError | ReplaceConfigException | OtherException

datatype exn = Exn (kind: exn_kind) (type_name: string) (message: string)

definition attribute_error :: exn where
  "attribute_error = Exn OtherException ''AttributeError'' ''NoneType object has no attribute''"

subsection \<open>Inventory objects\<close>

datatype napalm_args = ArgsNone | ArgsDict "(string \<times> string) list" | ArgsStr string

record platform =
  platform_name :: string
  napalm_driver :: string
  napalm_args :: napalm_args

text \<open>
  \<open>primary_ip4\<close> holds \<open>str(device.primary_ip4.address.ip)\<close> when the device has a
  primary address; \<open>secrets_group\<close> holds the name of the secrets group.
\<close>

record device =
  name :: string
  platform :: "platform option"
  primary_ip4 :: "string option"
  secrets_group :: "string option"

record golden_config =
  intended_config :: string
  intended_last_success_date :: "string option"
  last_modified :: "string option"

datatype secret_type = TYPE_USERNAME | TYPE_PASSWORD

record connection_args =
  hostname :: string
  conn_username :: string
  conn_password :: string
  optional_args :: napalm_args

subsection \<open>The environment\<close>

text \<open>
  Everything the job calls but does not define. A driver object has state \<open>'d\<close>; each
  method returns its result, or the exception it raises, with the object's new state.
  \<open>get_network_driver\<close> returns the driver class, that is its constructor; \<open>open_conn\<close> is
  the method \<open>open\<close>.
  \<open>golden_config_import\<close> and \<open>helper_import\<close> say whether the two imports of
  \<open>_get_intended_config\<close> succeed (\<open>helper_import\<close> gives the \<open>ImportError\<close> otherwise);
  \<open>golden_config_get\<close> is \<open>GoldenConfig.objects.get\<close>, \<open>None\<close> for \<open>DoesNotExist\<close>.
\<close>

record 'd env =
  get_secret_value :: "string \<Rightarrow> secret_type \<Rightarrow> device \<Rightarrow> exn + string"
  golden_config_import :: bool
  golden_config_get :: "device \<Rightarrow> golden_config option"
  helper_import :: "exn option"
  json_loads :: "string \<Rightarrow> exn + napalm_args"
  format_exc :: "exn \<Rightarrow> string"
  get_network_driver :: "string \<Rightarrow> exn + (connection_args \<Rightarrow> exn + 'd)"
  open_conn :: "'d \<Rightarrow> (exn + unit) \<times> 'd"
  load_replace_candidate :: "string \<Rightarrow> 'd \<Rightarrow> (exn + unit) \<times> 'd"
  load_merge_candidate :: "string \<Rightarrow> 'd \<Rightarrow> (exn + unit) \<times> 'd"
  compare_config :: "'d \<Rightarrow> (exn + string) \<times> 'd"
  discard_config :: "'d \<Rightarrow> (exn + unit) \<times> 'd"
  commit_config :: "'d \<Rightarrow> (exn + unit) \<times> 'd"
  get_facts :: "'d \<Rightarrow> (exn + (string \<times> string) list) \<times> 'd"
  close :: "'d \<Rightarrow> (exn + unit) \<times> 'd"

subsection \<open>The job's state\<close>

datatype call =
  Open | LoadReplaceCandidate string | LoadMergeCandidate string | CompareConfig
  | DiscardConfig | CommitConfig | GetFacts | Close

text \<open>How a call ended: with an exception, or with the value it returned.\<close>

datatype outcome =
  Raised exn | Returned | ReturnedText string | ReturnedFacts "(string \<times> string) list"

datatype level = Debug | Info | Success | Warning | Error

text \<open>
  \<open>napalm_device\<close> is the local variable of \<open>_deploy_config\<close>; \<open>calls\<close> are the driver
  methods invoked so far, each with its outcome, in order; \<open>logs\<close> are the records handed
  to \<open>self.logger\<close>, in order.
\<close>

record 'd state =
  napalm_device :: "'d option"
  calls :: "(call \<times> outcome) list"
  logs :: "(level \<times> string) list"

definition init_state :: "'d state" where
  "init_state = \<lparr>napalm_device = None, calls = [], logs = []\<rparr>"

definition logger :: "level \<Rightarrow> string \<Rightarrow> 'd state \<Rightarrow> 'd state" where
  "logger lvl msg s = s\<lparr>logs := logs s @ [(lvl, msg)]\<rparr>"

definition log_info :: "bool \<Rightarrow> string \<Rightarrow> 'd state \<Rightarrow> 'd state" where
  "log_info show_debug msg s = (if show_debug then logger Info msg s else s)"

definition log_debug :: "bool \<Rightarrow> string \<Rightarrow> 'd state \<Rightarrow> 'd state" where
  "log_debug show_debug msg s = (if show_debug then logger Debug msg s else s)"

text \<open>
  \<open>napalm_device.m()\<close>: the call is recorded with its outcome and the object's state
  replaced; \<open>ret\<close> says how a returned value is recorded. On \<open>None\<close> Python raises
  \<open>AttributeError\<close>.
\<close>

definition invoke ::
  "call \<Rightarrow> ('r \<Rightarrow> outcome) \<Rightarrow> ('d \<Rightarrow> (exn + 'r) \<times> 'd) \<Rightarrow> 'd state \<Rightarrow> (exn + 'r) \<times> 'd state" where
  "invoke c ret m s =
     (case napalm_device s of
        None \<Rightarrow> (Inl attribute_error, s)
      | Some d \<Rightarrow>
          (case m d of
             (r, d') \<Rightarrow>
               (r, s\<lparr>napalm_device := Some d',
                      calls := calls s @ [(c, case r of Inl e \<Rightarrow> Raised e | Inr v \<Rightarrow> ret v)]\<rparr>)))"

definition unit_outcome :: "unit \<Rightarrow> outcome" where
  "unit_outcome u = Returned"

subsection \<open>The messages of the job\<close>

text \<open>
  Every text the job logs, named after what it says and listed in the order of the
  source lines (given on the right). An f-string is a function of what it interpolates;
  \<open>str(e)\<close> is \<open>message e\<close>.
\<close>

definition nl :: string where
  "nl = [CHR 0x0A]"

definition rule_equals :: string where \<comment> \<open>74, 76, 102, 104\<close>
  "rule_equals = replicate 80 CHR ''=''"

definition starting_msg :: "string \<Rightarrow> string" where \<comment> \<open>75\<close>
  "starting_msg device_name = ''Starting provisioning for device: '' @ device_name"

definition no_config_msg :: string where \<comment> \<open>88\<close>
  "no_config_msg = ''No intended configuration available. Cannot proceed.''"

definition completed_msg :: "string \<Rightarrow> string" where \<comment> \<open>103\<close>
  "completed_msg device_name = ''Provisioning completed for '' @ device_name"

definition validating_msg :: string where \<comment> \<open>118\<close>
  "validating_msg = ''Validating device configuration...''"

definition no_platform_msg :: "string \<Rightarrow> string" where \<comment> \<open>121\<close>
  "no_platform_msg device_name = ''Device '' @ device_name @ '' has no platform configured''"

definition no_driver_msg :: "string \<Rightarrow> string \<Rightarrow> string" where \<comment> \<open>125\<close>
  "no_driver_msg device_name pname =
     ''Device '' @ device_name @ '' platform '' @ [CHR 0x27] @ pname @ [CHR 0x27]
       @ '' has no NAPALM driver configured''"

definition no_address_msg :: "string \<Rightarrow> string" where \<comment> \<open>132\<close>
  "no_address_msg device_name = ''Device '' @ device_name @ '' has no primary IPv4 address''"

definition validation_passed_msg :: string where \<comment> \<open>135\<close>
  "validation_passed_msg = ''Device validation passed''"

text \<open>The check mark and the arrow of the messages, as their UTF-8 bytes.\<close>

definition check_mark :: string where
  "check_mark = [CHR 0xE2, CHR 0x9C, CHR 0x93]"

definition arrow :: string where
  "arrow = [CHR 0xE2, CHR 0x86, CHR 0x92]"

definition group_configured_msg :: "string \<Rightarrow> string" where \<comment> \<open>147\<close>
  "group_configured_msg group_name = ''Secrets group configured: '' @ group_name"

definition username_retrieved_msg :: "string \<Rightarrow> string" where \<comment> \<open>160\<close>
  "username_retrieved_msg u = check_mark @ '' Retrieved username from secrets group: '' @ u"

definition username_empty_msg :: string where \<comment> \<open>164\<close>
  "username_empty_msg = ''Username secret returned empty, using default''"

definition username_error_msg :: "exn \<Rightarrow> string" where \<comment> \<open>167\<close>
  "username_error_msg e = ''Could not retrieve username: '' @ type_name e @ '': '' @ message e"

definition username_default_msg :: string where \<comment> \<open>168\<close>
  "username_default_msg = ''Could not retrieve username from secrets, using default''"

definition password_retrieved_msg :: string where \<comment> \<open>178\<close>
  "password_retrieved_msg = check_mark @ '' Retrieved password from secrets group''"

definition password_empty_msg :: string where \<comment> \<open>182\<close>
  "password_empty_msg = ''Password secret returned empty, using default''"

definition password_error_msg :: "exn \<Rightarrow> string" where \<comment> \<open>185\<close>
  "password_error_msg e = ''Could not retrieve password: '' @ type_name e @ '': '' @ message e"

definition password_default_msg :: string where \<comment> \<open>186\<close>
  "password_default_msg = ''Could not retrieve password from secrets, using default''"

definition using_group_msg :: "string \<Rightarrow> string" where \<comment> \<open>190\<close>
  "using_group_msg group_name = ''Using credentials from secrets group: '' @ group_name"

definition group_failed_msg :: "string \<Rightarrow> string" where \<comment> \<open>192\<close>
  "group_failed_msg group_name =
     ''Secrets group '' @ [CHR 0x27] @ group_name @ [CHR 0x27]
       @ '' is configured but secrets could not be retrieved. ''
       @ ''Using default credentials (admin/admin).''"

definition fix_hints :: "string list" where \<comment> \<open>196 to 209\<close>
  "fix_hints =
     [[],
      ''To fix this, you have two options:'',
      [],
      ''Option 1: Set environment variables in Nautobot'',
      ''  Add to docker-compose.yml or nautobot_config.py:'',
      ''  NAUTOBOT_NAPALM_USERNAME=admin'',
      ''  NAUTOBOT_NAPALM_PASSWORD=admin'',
      [],
      ''Option 2: Change secrets to use Text provider instead'',
      ''  Secrets '' @ arrow @ '' Secrets '' @ arrow @ '' Edit each secret'',
      ''  Change provider from 'environment-variable' to 'text-file' or other'',
      [],
      ''For this lab, default credentials (admin/admin) will work fine!'',
      []]"

definition no_group_msg :: string where \<comment> \<open>211\<close>
  "no_group_msg =
     ''No secrets group configured for this device. ''
       @ ''Using default credentials (admin/admin)''"

definition tip_msg :: string where \<comment> \<open>215\<close>
  "tip_msg = ''Tip: Assign a secrets group in the device settings for production use''"

definition default_credentials_msg :: string where \<comment> \<open>221\<close>
  "default_credentials_msg = ''Using default credentials: admin/admin''"

definition secret_credentials_msg :: "string \<Rightarrow> string" where \<comment> \<open>223\<close>
  "secret_credentials_msg u = ''Using credentials from secrets: '' @ u @ ''/<hidden>''"

definition rule_dashes :: string where \<comment> \<open>229, 300, 350, 352\<close>
  "rule_dashes = replicate 80 CHR ''-''"

definition generating_msg :: string where \<comment> \<open>230\<close>
  "generating_msg = ''Generating intended configuration from Golden Config...''"

definition found_config_msg :: "string \<Rightarrow> string" where \<comment> \<open>246\<close>
  "found_config_msg last_update =
     ''Found existing intended config (last updated: '' @ last_update @ '')''"

definition preview_msg :: "string \<Rightarrow> string" where \<comment> \<open>255\<close>
  "preview_msg config_preview = ''Config preview:'' @ nl @ config_preview @ nl @ ''...''"

definition no_intended_msg :: string where \<comment> \<open>259\<close>
  "no_intended_msg = ''Golden Config record exists but has no intended config''"

definition no_record_msg :: "string \<Rightarrow> string" where \<comment> \<open>264\<close>
  "no_record_msg device_name = ''No Golden Config record found for '' @ device_name"

definition attempting_msg :: string where \<comment> \<open>269\<close>
  "attempting_msg = ''Attempting to generate config using Golden Config plugin...''"

definition generating_new_msg :: string where \<comment> \<open>276\<close>
  "generating_new_msg = ''Generating new intended configuration...''"

definition run_generate_first_msg :: string where \<comment> \<open>280\<close>
  "run_generate_first_msg =
     ''Please run the Golden Config 'Generate Intended Configurations' job first''"

definition plugin_unavailable_msg :: "exn \<Rightarrow> string" where \<comment> \<open>286\<close>
  "plugin_unavailable_msg e =
     ''Golden Config plugin not available or not properly configured: '' @ message e"

definition plugin_missing_msg :: string where \<comment> \<open>292\<close>
  "plugin_missing_msg =
     ''Golden Config plugin is not installed. ''
       @ ''Please install nautobot-golden-config plugin.''"

definition connecting_msg :: string where \<comment> \<open>301\<close>
  "connecting_msg = ''Connecting to device and deploying configuration...''"

definition device_ip_msg :: "string \<Rightarrow> string" where \<comment> \<open>306\<close>
  "device_ip_msg device_ip = ''Device IP: '' @ device_ip"

definition driver_msg :: "string \<Rightarrow> string" where \<comment> \<open>307\<close>
  "driver_msg driver_name = ''NAPALM Driver: '' @ driver_name"

definition mode_msg :: "bool \<Rightarrow> string" where \<comment> \<open>308\<close>
  "mode_msg dry_run = ''Mode: '' @ (if dry_run then ''DRY RUN'' else ''LIVE DEPLOYMENT'')"

definition method_msg :: "bool \<Rightarrow> string" where \<comment> \<open>309\<close>
  "method_msg replace = ''Method: '' @ (if replace then ''REPLACE'' else ''MERGE'')"

definition opening_msg :: "string \<Rightarrow> string" where \<comment> \<open>328\<close>
  "opening_msg device_ip = ''Opening connection to '' @ device_ip @ ''...''"

definition connected_msg :: "string \<Rightarrow> string" where \<comment> \<open>330\<close>
  "connected_msg device_name = ''Connected to '' @ device_name"

definition loading_msg :: string where \<comment> \<open>333\<close>
  "loading_msg = ''Loading configuration to device...''"

definition replace_warning :: string where \<comment> \<open>336\<close>
  "replace_warning = ''REPLACE mode: Entire configuration will be replaced!''"

definition merge_msg :: string where \<comment> \<open>339\<close>
  "merge_msg = ''MERGE mode: Configuration will be merged with existing''"

definition loaded_msg :: string where \<comment> \<open>342\<close>
  "loaded_msg = ''Configuration loaded successfully''"

definition generating_diff_msg :: string where \<comment> \<open>345\<close>
  "generating_diff_msg = ''Generating configuration diff...''"

definition changes_msg :: string where \<comment> \<open>349\<close>
  "changes_msg = ''Configuration changes:''"

definition no_changes_msg :: string where \<comment> \<open>354\<close>
  "no_changes_msg = ''No configuration changes detected''"

definition dry_run_warning :: string where \<comment> \<open>360\<close>
  "dry_run_warning = ''DRY RUN mode: Discarding configuration changes''"

definition apply_hint_msg :: string where \<comment> \<open>362\<close>
  "apply_hint_msg = ''To apply these changes, run again with 'Dry run mode' unchecked''"

definition committing_msg :: string where \<comment> \<open>367\<close>
  "committing_msg = ''Committing configuration changes...''"

definition committed_msg :: string where \<comment> \<open>369\<close>
  "committed_msg = ''Configuration committed successfully and saved to startup-config''"

definition verifying_msg :: string where \<comment> \<open>374\<close>
  "verifying_msg = ''Verifying configuration...''"

text \<open>\<open>facts.get('hostname')\<close> is \<open>None\<close> when the key is missing, printed as \<open>None\<close>.\<close>

definition running_msg :: "(string \<times> string) list \<Rightarrow> string" where \<comment> \<open>376\<close>
  "running_msg facts =
     ''Device '' @ (case map_of facts ''hostname'' of None \<Rightarrow> ''None'' | Some h \<Rightarrow> h)
       @ '' is running with new configuration''"

definition commit_disabled_warning :: string where \<comment> \<open>380\<close>
  "commit_disabled_warning = ''Commit disabled: Changes loaded but not committed''"

definition connection_error_msg :: "exn \<Rightarrow> string" where \<comment> \<open>384\<close>
  "connection_error_msg e = ''Connection error: '' @ message e"

definition please_verify_msg :: string where \<comment> \<open>385\<close>
  "please_verify_msg =
     ''Please verify:'' @ nl @ ''  - Device is reachable'' @ nl
       @ ''  - Credentials are correct'' @ nl
       @ ''  - Management interface is configured'' @ nl
       @ ''  - SSH/API is enabled on device''"

definition deployment_error_msg :: "exn \<Rightarrow> string" where \<comment> \<open>394\<close>
  "deployment_error_msg e = ''Configuration deployment error: '' @ message e"

definition rolled_back_msg :: string where \<comment> \<open>395\<close>
  "rolled_back_msg = ''Configuration has been rolled back''"

definition unexpected_error_msg :: "exn \<Rightarrow> string" where \<comment> \<open>398\<close>
  "unexpected_error_msg e = ''Unexpected error during deployment: '' @ message e"

definition attempting_discard_msg :: string where \<comment> \<open>403\<close>
  "attempting_discard_msg = ''Attempting to discard configuration changes...''"

definition discarded_msg :: string where \<comment> \<open>405\<close>
  "discarded_msg = ''Configuration changes discarded''"

definition discard_failed_msg :: "exn \<Rightarrow> string" where \<comment> \<open>407\<close>
  "discard_failed_msg e = ''Could not discard config: '' @ message e"

definition closed_msg :: string where \<comment> \<open>413\<close>
  "closed_msg = ''Connection closed''"

definition close_failed_msg :: "exn \<Rightarrow> string" where \<comment> \<open>415\<close>
  "close_failed_msg e = ''Error closing connection: '' @ message e"

subsection \<open>\<open>_deploy_config\<close>\<close>

text \<open>Lines 358 to 381: commit or discard, by \<open>dry_run\<close> first and \<open>commit\<close> second.\<close>

definition commit_or_discard :: "'d env \<Rightarrow> bool \<Rightarrow> bool \<Rightarrow> bool \<Rightarrow> 'd state \<Rightarrow> (exn + unit) \<times> 'd state" where
  "commit_or_discard env show_debug dry_run commit s =
     (if dry_run then
        (case invoke DiscardConfig unit_outcome (discard_config env)
                (logger Warning dry_run_warning s) of
           (Inl e, s1) \<Rightarrow> (Inl e, s1)
         | (Inr _, s1) \<Rightarrow> (Inr (), log_info show_debug apply_hint_msg s1))
      else if commit then
        (case invoke CommitConfig unit_outcome (commit_config env)
                (log_info show_debug committing_msg s) of
           (Inl e, s1) \<Rightarrow> (Inl e, s1)
         | (Inr _, s1) \<Rightarrow>
             (case invoke GetFacts ReturnedFacts (get_facts env)
                     (log_info show_debug verifying_msg (logger Success committed_msg s1)) of
                (Inl e, s2) \<Rightarrow> (Inl e, s2)
              | (Inr facts, s2) \<Rightarrow> (Inr (), logger Success (running_msg facts) s2)))
      else
        invoke DiscardConfig unit_outcome (discard_config env)
          (logger Warning commit_disabled_warning s))"

text \<open>Lines 344 to 356: the diff; an empty diff discards and returns.\<close>

definition diff_and_decide :: "'d env \<Rightarrow> bool \<Rightarrow> bool \<Rightarrow> bool \<Rightarrow> 'd state \<Rightarrow> (exn + unit) \<times> 'd state" where
  "diff_and_decide env show_debug dry_run commit s =
     (case invoke CompareConfig ReturnedText (compare_config env)
             (log_info show_debug generating_diff_msg s) of
        (Inl e, s1) \<Rightarrow> (Inl e, s1)
      | (Inr diff, s1) \<Rightarrow>
          (if diff \<noteq> [] then
             commit_or_discard env show_debug dry_run commit
               (log_info show_debug rule_dashes
                 (log_info show_debug diff
                   (log_info show_debug rule_dashes
                     (log_info show_debug changes_msg s1))))
           else
             invoke DiscardConfig unit_outcome (discard_config env)
               (log_info show_debug no_changes_msg s1)))"

text \<open>Lines 332 to 342: stage the candidate, replacing or merging.\<close>

definition load_candidate :: "'d env \<Rightarrow> bool \<Rightarrow> string \<Rightarrow> bool \<Rightarrow> 'd state \<Rightarrow> (exn + unit) \<times> 'd state" where
  "load_candidate env show_debug config replace s =
     (case (if replace then
              invoke (LoadReplaceCandidate config) unit_outcome
                (load_replace_candidate env config)
                (logger Warning replace_warning (log_info show_debug loading_msg s))
            else
              invoke (LoadMergeCandidate config) unit_outcome
                (load_merge_candidate env config)
                (log_info show_debug merge_msg (log_info show_debug loading_msg s))) of
        (Inl e, s1) \<Rightarrow> (Inl e, s1)
      | (Inr _, s1) \<Rightarrow> (Inr (), logger Success loaded_msg s1))"

text \<open>Lines 319 to 381: the body of the \<open>try\<close> statement.\<close>

definition try_body ::
  "'d env \<Rightarrow> bool \<Rightarrow> device \<Rightarrow> string \<Rightarrow> string \<Rightarrow> string \<Rightarrow> connection_args
     \<Rightarrow> bool \<Rightarrow> bool \<Rightarrow> bool \<Rightarrow> 'd state \<Rightarrow> (exn + unit) \<times> 'd state" where
  "try_body env show_debug device driver_name device_ip config args dry_run replace commit s =
     (case get_network_driver env driver_name of
        Inl e \<Rightarrow> (Inl e, s)
      | Inr driver \<Rightarrow>
          (case driver args of
             Inl e \<Rightarrow> (Inl e, s)
           | Inr d \<Rightarrow>
               (case invoke Open unit_outcome (open_conn env)
                       (log_info show_debug (opening_msg device_ip)
                          (s\<lparr>napalm_device := Some d\<rparr>)) of
                  (Inl e, s1) \<Rightarrow> (Inl e, s1)
                | (Inr _, s1) \<Rightarrow>
                    (case load_candidate env show_debug config replace
                            (logger Success (connected_msg (name device)) s1) of
                       (Inl e, s2) \<Rightarrow> (Inl e, s2)
                     | (Inr _, s2) \<Rightarrow> diff_and_decide env show_debug dry_run commit s2))))"

text \<open>Lines 383 to 407: the three \<open>except\<close> clauses, in the order of the source.\<close>

definition except_clauses :: "'d env \<Rightarrow> bool \<Rightarrow> exn \<Rightarrow> 'd state \<Rightarrow> 'd state" where
  "except_clauses env show_debug e s =
     (if kind e = ConnectionException then
        logger Error please_verify_msg (logger Error (connection_error_msg e) s)
      else if kind e = CommitError \<or> kind e = ReplaceConfigException then
        logger Error rolled_back_msg (logger Error (deployment_error_msg e) s)
      else
        (let s1 = logger Error (format_exc env e) (logger Error (unexpected_error_msg e) s)
         in if napalm_device s1 \<noteq> None then
              (case invoke DiscardConfig unit_outcome (discard_config env)
                      (log_info show_debug attempting_discard_msg s1) of
                 (Inl discard_error, s2) \<Rightarrow> logger Error (discard_failed_msg discard_error) s2
               | (Inr _, s2) \<Rightarrow> log_info show_debug discarded_msg s2)
            else s1))"

text \<open>Lines 409 to 415: the \<open>finally\<close> clause.\<close>

definition finally_clause :: "'d env \<Rightarrow> bool \<Rightarrow> 'd state \<Rightarrow> 'd state" where
  "finally_clause env show_debug s =
     (if napalm_device s \<noteq> None then
        (case invoke Close unit_outcome (close env) s of
           (Inl close_error, s1) \<Rightarrow> logger Warning (close_failed_msg close_error) s1
         | (Inr _, s1) \<Rightarrow> log_info show_debug closed_msg s1)
      else s)"

text \<open>
  Lines 311 to 315. \<open>device.platform.napalm_args or {}\<close> replaces \<open>None\<close>, the empty
  dictionary and the empty string by the empty dictionary; a remaining string goes through
  \<open>json.loads\<close>, which raises on a text that is not JSON.
\<close>

definition parse_optional_args :: "'d env \<Rightarrow> platform \<Rightarrow> exn + napalm_args" where
  "parse_optional_args env p =
     (case napalm_args p of
        ArgsNone \<Rightarrow> Inr (ArgsDict [])
      | ArgsDict kvs \<Rightarrow> Inr (ArgsDict kvs)
      | ArgsStr t \<Rightarrow> (if t = [] then Inr (ArgsDict []) else json_loads env t))"

text \<open>
  Lines 298 to 415. The statements before the \<open>try\<close> are not protected: an attribute of
  \<open>None\<close> and a failing \<open>json.loads\<close> raise to the caller. Inside the \<open>try\<close> every
  exception is handled by one of the \<open>except\<close> clauses, and the \<open>finally\<close> clause runs on
  every way out.
\<close>

definition deploy_config ::
  "'d env \<Rightarrow> bool \<Rightarrow> device \<Rightarrow> string \<Rightarrow> string \<Rightarrow> string \<Rightarrow> bool \<Rightarrow> bool \<Rightarrow> bool
     \<Rightarrow> 'd state \<Rightarrow> (exn + unit) \<times> 'd state" where
  "deploy_config env show_debug device config username password dry_run replace commit s =
     (let s1 = log_info show_debug connecting_msg (log_info show_debug rule_dashes s)
      in case primary_ip4 device of
           None \<Rightarrow> (Inl attribute_error, s1)
         | Some device_ip \<Rightarrow>
             (case platform device of
                None \<Rightarrow> (Inl attribute_error, s1)
              | Some p \<Rightarrow>
                  (let driver_name = napalm_driver p;
                       s2 = log_info show_debug (method_msg replace)
                              (log_info show_debug (mode_msg dry_run)
                                 (log_info show_debug (driver_msg driver_name)
                                    (log_info show_debug (device_ip_msg device_ip) s1)))
                   in case parse_optional_args env p of
                        Inl e \<Rightarrow> (Inl e, s2)
                      | Inr args \<Rightarrow>
                          (case try_body env show_debug device driver_name device_ip config
                                  \<lparr>hostname = device_ip, conn_username = username,
                                   conn_password = password, optional_args = args\<rparr>
                                  dry_run replace commit (s2\<lparr>napalm_device := None\<rparr>) of
                             (Inl e, s3) \<Rightarrow>
                               (Inr (), finally_clause env show_debug
                                          (except_clauses env show_debug e s3))
                           | (Inr _, s3) \<Rightarrow> (Inr (), finally_clause env show_debug s3)))))"

subsection \<open>\<open>_validate_device\<close>\<close>

text \<open>Lines 116 to 136. An empty \<open>napalm_driver\<close> stands for any falsy value of the field.\<close>

definition validate_device :: "bool \<Rightarrow> device \<Rightarrow> 'd state \<Rightarrow> bool \<times> 'd state" where
  "validate_device show_debug device s =
     (let s1 = log_info show_debug validating_msg s
      in case platform device of
           None \<Rightarrow> (False, logger Error (no_platform_msg (name device)) s1)
         | Some p \<Rightarrow>
             (if napalm_driver p = [] then
                (False, logger Error (no_driver_msg (name device) (platform_name p)) s1)
              else if primary_ip4 device = None then
                (False, logger Error (no_address_msg (name device)) s1)
              else (True, logger Success validation_passed_msg s1)))"

subsection \<open>\<open>_get_credentials\<close>\<close>

text \<open>
  Lines 153 to 168 and 171 to 186: one field of the pair. The result is the value of the
  field, the flag \<open>username_from_secrets\<close> or \<open>password_from_secrets\<close>, and the state.
\<close>

definition username_from_group :: "'d env \<Rightarrow> bool \<Rightarrow> device \<Rightarrow> string \<Rightarrow> 'd state \<Rightarrow> (string \<times> bool) \<times> 'd state" where
  "username_from_group env show_debug device group_name s =
     (case get_secret_value env group_name TYPE_USERNAME device of
        Inr username \<Rightarrow>
          (if username \<noteq> [] then
             ((username, True), logger Success (username_retrieved_msg username) s)
           else ((''admin'', False), log_info show_debug username_empty_msg s))
      | Inl e \<Rightarrow>
          ((''admin'', False),
           log_info show_debug username_default_msg
             (log_debug show_debug (username_error_msg e) s)))"

definition password_from_group :: "'d env \<Rightarrow> bool \<Rightarrow> device \<Rightarrow> string \<Rightarrow> 'd state \<Rightarrow> (string \<times> bool) \<times> 'd state" where
  "password_from_group env show_debug device group_name s =
     (case get_secret_value env group_name TYPE_PASSWORD device of
        Inr password \<Rightarrow>
          (if password \<noteq> [] then
             ((password, True), logger Success password_retrieved_msg s)
           else ((''admin'', False), log_info show_debug password_empty_msg s))
      | Inl e \<Rightarrow>
          ((''admin'', False),
           log_info show_debug password_default_msg
             (log_debug show_debug (password_error_msg e) s)))"

text \<open>Lines 138 to 225.\<close>

definition get_credentials :: "'d env \<Rightarrow> bool \<Rightarrow> device \<Rightarrow> 'd state \<Rightarrow> (string \<times> string) \<times> 'd state" where
  "get_credentials env show_debug device s =
     (case (case secrets_group device of
              Some group_name \<Rightarrow>
                (case username_from_group env show_debug device group_name
                        (log_info show_debug (group_configured_msg group_name) s) of
                   ((username, username_from_secrets), s1) \<Rightarrow>
                     (case password_from_group env show_debug device group_name s1 of
                        ((password, password_from_secrets), s2) \<Rightarrow>
                          ((username, password),
                           (if username_from_secrets \<or> password_from_secrets then
                              logger Success (using_group_msg group_name) s2
                            else
                              fold (log_info show_debug) fix_hints
                                (logger Warning (group_failed_msg group_name) s2)))))
            | None \<Rightarrow>
                ((''admin'', ''admin''),
                 log_info show_debug tip_msg (log_info show_debug no_group_msg s))) of
        ((username, password), s3) \<Rightarrow>
          ((username, password),
           (if username = ''admin'' \<and> password = ''admin'' then
              log_info show_debug default_credentials_msg s3
            else log_info show_debug (secret_credentials_msg username) s3)))"

subsection \<open>\<open>_get_intended_config\<close>\<close>

text \<open>\<open>text.split("\n")\<close> and \<open>"\n".join(lines)\<close>.\<close>

fun split_lines :: "string \<Rightarrow> string list" where
  "split_lines [] = [[]]"
| "split_lines (c # cs) =
     (if c = CHR 0x0A then [] # split_lines cs
      else (case split_lines cs of [] \<Rightarrow> [[c]] | l # ls \<Rightarrow> (c # l) # ls))"

fun join_lines :: "string list \<Rightarrow> string" where
  "join_lines [] = []"
| "join_lines [l] = l"
| "join_lines (l # ls) = l @ nl @ join_lines ls"

text \<open>
  Lines 268 to 289: no usable record was found; both ways out log an error and return
  \<open>None\<close>.
\<close>

definition generate_config :: "'d env \<Rightarrow> bool \<Rightarrow> 'd state \<Rightarrow> string option \<times> 'd state" where
  "generate_config env show_debug s =
     (let s1 = log_info show_debug attempting_msg s
      in case helper_import env of
           None \<Rightarrow>
             (None, logger Error run_generate_first_msg
                      (log_info show_debug generating_new_msg s1))
         | Some e \<Rightarrow> (None, logger Error (plugin_unavailable_msg e) s1))"

text \<open>Lines 227 to 296. The result is the intended configuration, or \<open>None\<close>.\<close>

definition get_intended_config :: "'d env \<Rightarrow> bool \<Rightarrow> device \<Rightarrow> 'd state \<Rightarrow> string option \<times> 'd state" where
  "get_intended_config env show_debug device s =
     (let s1 = log_info show_debug generating_msg (log_info show_debug rule_dashes s)
      in if \<not> golden_config_import env then (None, logger Error plugin_missing_msg s1)
         else
           (case golden_config_get env device of
              Some golden_config \<Rightarrow>
                (if intended_config golden_config \<noteq> [] then
                   (let last_update =
                          (case intended_last_success_date golden_config of
                             Some d \<Rightarrow> d
                           | None \<Rightarrow>
                               (case last_modified golden_config of
                                  Some m \<Rightarrow> m
                                | None \<Rightarrow> ''unknown''));
                        config_preview =
                          join_lines (take 10 (split_lines (intended_config golden_config)))
                    in (Some (intended_config golden_config),
                        log_info show_debug (preview_msg config_preview)
                          (logger Success (found_config_msg last_update) s1)))
                 else
                   generate_config env show_debug (logger Warning no_intended_msg s1))
            | None \<Rightarrow>
                generate_config env show_debug
                  (logger Warning (no_record_msg (name device)) s1)))"

subsection \<open>\<open>run\<close>\<close>

text \<open>
  Lines 69 to 104. The result is \<open>Inr ()\<close> when \<open>run\<close> returns and \<open>Inl e\<close> when the
  exception \<open>e\<close> leaves it. \<open>not intended_config\<close> holds of \<open>None\<close> and of the empty text.
\<close>

definition run :: "'d env \<Rightarrow> device \<Rightarrow> bool \<Rightarrow> bool \<Rightarrow> bool \<Rightarrow> bool \<Rightarrow> 'd state \<Rightarrow> (exn + unit) \<times> 'd state" where
  "run env device dry_run replace_config commit_changes show_debug s =
     (case validate_device show_debug device
             (log_info show_debug rule_equals
                (log_info show_debug (starting_msg (name device))
                   (log_info show_debug rule_equals s))) of
        (False, s1) \<Rightarrow> (Inr (), s1)
      | (True, s1) \<Rightarrow>
          (case get_credentials env show_debug device s1 of
             ((username, password), s2) \<Rightarrow>
               (case get_intended_config env show_debug device s2 of
                  (intended, s3) \<Rightarrow>
                    (case (case intended of None \<Rightarrow> None
                           | Some c \<Rightarrow> if c = [] then None else Some c) of
                       None \<Rightarrow> (Inr (), logger Error no_config_msg s3)
                     | Some config \<Rightarrow>
                         (case deploy_config env show_debug device config username password
                                 dry_run replace_config commit_changes s3 of
                            (Inl e, s4) \<Rightarrow> (Inl e, s4)
                          | (Inr _, s4) \<Rightarrow>
                              (Inr (),
                               log_info show_debug rule_equals
                                 (logger Success (completed_msg (name device))
                                    (log_info show_debug rule_equals s4))))))))"

subsection \<open>What one run shows\<close>

text \<open>
  One deployment attempt, started with nothing called and nothing logged: the state in
  which \<open>_deploy_config\<close> ends.
\<close>

definition attempt ::
  "'d env \<Rightarrow> bool \<Rightarrow> device \<Rightarrow> string \<Rightarrow> string \<Rightarrow> string \<Rightarrow> bool \<Rightarrow> bool \<Rightarrow> bool \<Rightarrow> 'd state" where
  "attempt env show_debug device config username password dry_run replace commit =
     snd (deploy_config env show_debug device config username password dry_run replace commit
            init_state)"

text \<open>The methods called, in order, and the messages logged at one level, in order.\<close>

definition methods :: "'d state \<Rightarrow> call list" where
  "methods s = map fst (calls s)"

definition messages :: "level \<Rightarrow> 'd state \<Rightarrow> string list" where
  "messages lvl s = map snd (filter (\<lambda>r. fst r = lvl) (logs s))"

text \<open>How the calls of one method ended, in order.\<close>

definition outcomes :: "call \<Rightarrow> 'd state \<Rightarrow> outcome list" where
  "outcomes c s = map snd (filter (\<lambda>x. fst x = c) (calls s))"

subsection \<open>The ways through the \<open>try\<close> statement\<close>

text \<open>
  Summaries for the proofs: what each part of \<open>_deploy_config\<close> can add to the calls
  (\<open>t\<close>), to the warnings (\<open>w\<close>), to the success messages (\<open>su\<close>) and to the errors
  (\<open>er\<close>), together with its result \<open>r\<close>. \<open>infos\<close> are the info messages logged at the
  end. The lemmas below show that the functions above do nothing else.
\<close>

type_synonym trace = "(call \<times> outcome) list"

definition discard_path :: "exn + unit \<Rightarrow> trace \<Rightarrow> bool" where
  "discard_path r t =
     ((\<exists>e. r = Inl e \<and> t = [(DiscardConfig, Raised e)])
      \<or> (r = Inr () \<and> t = [(DiscardConfig, Returned)]))"

definition decide_path ::
  "bool \<Rightarrow> bool \<Rightarrow> exn + unit \<Rightarrow> trace \<Rightarrow> string list \<Rightarrow> string list \<Rightarrow> bool" where
  "decide_path dry_run commit r t w su =
     ((dry_run \<and> w = [dry_run_warning] \<and> su = [] \<and> discard_path r t)
      \<or> (\<not> dry_run \<and> commit \<and> w = []
           \<and> (\<exists>e. r = Inl e \<and> t = [(CommitConfig, Raised e)] \<and> su = []))
      \<or> (\<not> dry_run \<and> commit \<and> w = []
           \<and> (\<exists>e. r = Inl e \<and> t = [(CommitConfig, Returned), (GetFacts, Raised e)]
                  \<and> su = [committed_msg]))
      \<or> (\<not> dry_run \<and> commit \<and> w = []
           \<and> (\<exists>f. r = Inr () \<and> t = [(CommitConfig, Returned), (GetFacts, ReturnedFacts f)]
                  \<and> su = [committed_msg, running_msg f]))
      \<or> (\<not> dry_run \<and> \<not> commit \<and> w = [commit_disabled_warning] \<and> su = []
           \<and> discard_path r t))"

definition diff_path ::
  "bool \<Rightarrow> bool \<Rightarrow> bool \<Rightarrow> exn + unit \<Rightarrow> trace \<Rightarrow> string list \<Rightarrow> string list \<Rightarrow> string list
     \<Rightarrow> bool" where
  "diff_path show_debug dry_run commit r t w su infos =
     ((\<exists>e. r = Inl e \<and> t = [(CompareConfig, Raised e)] \<and> w = [] \<and> su = [])
      \<or> (\<exists>t'. t = (CompareConfig, ReturnedText []) # t' \<and> discard_path r t' \<and> w = [] \<and> su = []
              \<and> (show_debug \<longrightarrow> no_changes_msg \<in> set infos))
      \<or> (\<exists>diff t'. diff \<noteq> [] \<and> t = (CompareConfig, ReturnedText diff) # t'
              \<and> (show_debug \<longrightarrow> diff \<in> set infos)
              \<and> decide_path dry_run commit r t' w su))"

definition load_call :: "string \<Rightarrow> bool \<Rightarrow> call" where
  "load_call config replace =
     (if replace then LoadReplaceCandidate config else LoadMergeCandidate config)"

definition body_path ::
  "bool \<Rightarrow> device \<Rightarrow> string \<Rightarrow> bool \<Rightarrow> bool \<Rightarrow> bool \<Rightarrow> exn + unit \<Rightarrow> trace \<Rightarrow> string list
     \<Rightarrow> string list \<Rightarrow> string list \<Rightarrow> bool" where
  "body_path show_debug device config dry_run replace commit r t w su infos =
     ((\<exists>e. r = Inl e \<and> t = [(Open, Raised e)] \<and> w = [] \<and> su = [])
      \<or> (\<exists>e. r = Inl e \<and> t = [(Open, Returned), (load_call config replace, Raised e)]
              \<and> w = (if replace then [replace_warning] else [])
              \<and> su = [connected_msg (name device)])
      \<or> (\<exists>t' w' su'. t = (Open, Returned) # (load_call config replace, Returned) # t'
              \<and> w = (if replace then [replace_warning] else []) @ w'
              \<and> su = connected_msg (name device) # loaded_msg # su'
              \<and> diff_path show_debug dry_run commit r t' w' su' infos))"

definition handler_path :: "'d env \<Rightarrow> exn \<Rightarrow> bool \<Rightarrow> trace \<Rightarrow> string list \<Rightarrow> bool" where
  "handler_path env e has_device t er =
     ((kind e = ConnectionException \<and> t = []
         \<and> er = [connection_error_msg e, please_verify_msg])
      \<or> ((kind e = CommitError \<or> kind e = ReplaceConfigException) \<and> t = []
           \<and> er = [deployment_error_msg e, rolled_back_msg])
      \<or> (kind e = OtherException \<and> has_device
           \<and> (\<exists>d. t = [(DiscardConfig, Raised d)]
                  \<and> er = [unexpected_error_msg e, format_exc env e, discard_failed_msg d]))
      \<or> (kind e = OtherException \<and> has_device \<and> t = [(DiscardConfig, Returned)]
           \<and> er = [unexpected_error_msg e, format_exc env e])
      \<or> (kind e = OtherException \<and> \<not> has_device \<and> t = []
           \<and> er = [unexpected_error_msg e, format_exc env e]))"

text \<open>After the body: nothing more on a normal end, the handler of \<open>e\<close> on \<open>Inl e\<close>.\<close>

definition after_body :: "'d env \<Rightarrow> exn + unit \<Rightarrow> trace \<Rightarrow> string list \<Rightarrow> bool" where
  "after_body env r h er =
     ((r = Inr () \<and> h = [] \<and> er = []) \<or> (\<exists>e. r = Inl e \<and> handler_path env e True h er))"

definition close_path :: "outcome \<Rightarrow> string list \<Rightarrow> bool" where
  "close_path oc w = ((\<exists>e. oc = Raised e \<and> w = [close_failed_msg e]) \<or> (oc = Returned \<and> w = []))"

subsection \<open>A lab device and its environment\<close>

text \<open>
  One device and one environment on which the job can be run. The driver object has no
  state of its own. Every driver method succeeds, the diff is \<open>+vlan 10\<close>, the secret
  store gives the username and raises for the password. \<open>json_loads\<close> is \<open>json.loads\<close>
  on the two texts the examples use, \<open>{}\<close> and \<open>{\<close>. Single methods are replaced where
  an example needs a failure.
\<close>

definition lab_platform :: platform where
  "lab_platform =
     \<lparr>platform_name = ''Arista EOS'', napalm_driver = ''eos'', napalm_args = ArgsNone\<rparr>"

definition lab_device :: device where
  "lab_device =
     \<lparr>name = ''r1'', platform = Some lab_platform, primary_ip4 = Some ''10.0.0.1'',
      secrets_group = Some ''lab''\<rparr>"

definition secret_error :: exn where
  "secret_error = Exn OtherException ''SecretError'' ''no provider''"

definition json_error :: exn where
  "json_error = Exn OtherException ''JSONDecodeError'' ''Expecting property name''"

definition lab_env :: "unit env" where
  "lab_env =
     \<lparr>get_secret_value =
        (\<lambda>g t d. if t = TYPE_USERNAME then Inr ''netops'' else Inl secret_error),
      golden_config_import = True,
      golden_config_get =
        (\<lambda>d. Some \<lparr>intended_config = ''vlan 10'', intended_last_success_date = None,
                    last_modified = None\<rparr>),
      helper_import = None,
      json_loads =
        (\<lambda>t. if t = ''{}'' then Inr (ArgsDict [])
             else Inl json_error),
      format_exc = (\<lambda>e. ''Traceback (most recent call last): '' @ type_name e),
      get_network_driver = (\<lambda>n. Inr (\<lambda>a. Inr ())),
      open_conn = (\<lambda>d. (Inr (), d)),
      load_replace_candidate = (\<lambda>c d. (Inr (), d)),
      load_merge_candidate = (\<lambda>c d. (Inr (), d)),
      compare_config = (\<lambda>d. (Inr ''+vlan 10'', d)),
      discard_config = (\<lambda>d. (Inr (), d)),
      commit_config = (\<lambda>d. (Inr (), d)),
      get_facts = (\<lambda>d. (Inr [(''hostname'', ''r1'')], d)),
      close = (\<lambda>d. (Inr (), d))\<rparr>"

definition timeout_error :: exn where
  "timeout_error = Exn ConnectionException ''ConnectTimeoutError'' ''timed out''"

definition commit_error :: exn where
  "commit_error = Exn CommitError ''CommitError'' ''invalid command''"

definition runtime_error :: exn where
  "runtime_error = Exn OtherException ''RuntimeError'' ''session lost''"


text \<open>The lab environment with one method failing, or with an empty diff.\<close>

definition open_fails :: "unit \<Rightarrow> (exn + unit) \<times> unit" where
  "open_fails d = (Inl timeout_error, d)"

definition commit_fails :: "unit \<Rightarrow> (exn + unit) \<times> unit" where
  "commit_fails d = (Inl commit_error, d)"

definition discard_fails :: "unit \<Rightarrow> (exn + unit) \<times> unit" where
  "discard_fails d = (Inl runtime_error, d)"

definition facts_fail :: "unit \<Rightarrow> (exn + (string \<times> string) list) \<times> unit" where
  "facts_fail d = (Inl runtime_error, d)"

definition no_diff :: "unit \<Rightarrow> (exn + string) \<times> unit" where
  "no_diff d = (Inr [], d)"

definition env_open_fails :: "unit env" where
  "env_open_fails = lab_env\<lparr>open_conn := open_fails\<rparr>"

definition env_commit_fails :: "unit env" where
  "env_commit_fails = lab_env\<lparr>commit_config := commit_fails\<rparr>"

definition env_discard_fails :: "unit env" where
  "env_discard_fails = lab_env\<lparr>discard_config := discard_fails\<rparr>"

definition env_facts_fail :: "unit env" where
  "env_facts_fail = lab_env\<lparr>get_facts := facts_fail\<rparr>"

definition env_no_diff :: "unit env" where
  "env_no_diff = lab_env\<lparr>compare_config := no_diff\<rparr>"

definition env_no_diff_discard_fails :: "unit env" where
  "env_no_diff_discard_fails = lab_env\<lparr>compare_config := no_diff, discard_config := discard_fails\<rparr>"

text \<open>The lab device with optional arguments that are not JSON.\<close>

definition bad_args_platform :: platform where
  "bad_args_platform = lab_platform\<lparr>napalm_args := ArgsStr ''{''\<rparr>"

definition bad_args_device :: device where
  "bad_args_device = lab_device\<lparr>platform := Some bad_args_platform\<rparr>"

text \<open>The lab environment with a Golden Config record whose intended configuration is empty.\<close>

definition empty_record :: "device \<Rightarrow> golden_config option" where
  "empty_record d =
     Some \<lparr>intended_config = [], intended_last_success_date = None, last_modified = None\<rparr>"

definition env_empty_config :: "unit env" where
  "env_empty_config = lab_env\<lparr>golden_config_get := empty_record\<rparr>"

section \<open>Lemmas\<close>

subsection \<open>Logging and calling\<close>

lemma logger_fields [simp]:
  "napalm_device (logger l m s) = napalm_device s"
  "calls (logger l m s) = calls s"
  "logs (logger l m s) = logs s @ [(l, m)]"
  by (simp_all add: logger_def)

lemma log_info_fields [simp]:
  "napalm_device (log_info b m s) = napalm_device s"
  "calls (log_info b m s) = calls s"
  by (simp_all add: log_info_def)

lemma log_debug_fields [simp]:
  "napalm_device (log_debug b m s) = napalm_device s"
  "calls (log_debug b m s) = calls s"
  by (simp_all add: log_debug_def)

lemma messages_logger [simp]:
  "messages lvl (logger l m s) = messages lvl s @ (if l = lvl then [m] else [])"
  by (simp add: messages_def)

lemma messages_log_info [simp]:
  "messages Error (log_info b m s) = messages Error s"
  "messages Warning (log_info b m s) = messages Warning s"
  "messages Success (log_info b m s) = messages Success s"
  "messages Info (log_info b m s) = messages Info s @ (if b then [m] else [])"
  by (simp_all add: messages_def log_info_def)

lemma messages_log_debug [simp]:
  "messages Error (log_debug b m s) = messages Error s"
  "messages Warning (log_debug b m s) = messages Warning s"
  "messages Success (log_debug b m s) = messages Success s"
  "messages Info (log_debug b m s) = messages Info s"
  by (simp_all add: messages_def log_debug_def)

lemma messages_update [simp]:
  "messages lvl (s\<lparr>napalm_device := x\<rparr>) = messages lvl s"
  "messages lvl (s\<lparr>calls := y\<rparr>) = messages lvl s"
  by (simp_all add: messages_def)

lemma invoke_effect:
  assumes "napalm_device s \<noteq> None" and "invoke c ret m s = (r, s')"
  shows "napalm_device s' \<noteq> None \<and> logs s' = logs s
         \<and> calls s' = calls s @ [(c, case r of Inl e \<Rightarrow> Raised e | Inr v \<Rightarrow> ret v)]"
  using assms by (auto simp: invoke_def split: option.splits prod.splits)

lemma invoke_messages:
  assumes "napalm_device s \<noteq> None" and "invoke c ret m s = (r, s')"
  shows "messages lvl s' = messages lvl s"
  using invoke_effect [OF assms] by (simp add: messages_def)


subsection \<open>The parts of \<open>_deploy_config\<close>\<close>

lemma commit_or_discard_effect:
  assumes "napalm_device s \<noteq> None"
    and "commit_or_discard env show_debug dry_run commit s = (r, s')"
  shows "napalm_device s' \<noteq> None \<and> messages Error s' = messages Error s
    \<and> set (messages Info s) \<subseteq> set (messages Info s')
    \<and> (\<exists>t w su. calls s' = calls s @ t \<and> messages Warning s' = messages Warning s @ w
          \<and> messages Success s' = messages Success s @ su
          \<and> decide_path dry_run commit r t w su)"
  using assms
  by (auto simp: commit_or_discard_def invoke_def unit_outcome_def decide_path_def discard_path_def
           split: option.splits prod.splits sum.splits if_splits)

lemma discard_effect:
  assumes "napalm_device s \<noteq> None"
    and "invoke DiscardConfig unit_outcome (discard_config env) s = (r, s')"
  shows "\<exists>t. calls s' = calls s @ t \<and> discard_path r t"
  using invoke_effect [OF assms]
  by (cases r) (auto simp: discard_path_def unit_outcome_def)

lemma diff_and_decide_effect:
  assumes dev: "napalm_device s \<noteq> None"
    and run: "diff_and_decide env show_debug dry_run commit s = (r, s')"
  shows "napalm_device s' \<noteq> None \<and> messages Error s' = messages Error s
    \<and> set (messages Info s) \<subseteq> set (messages Info s')
    \<and> (\<exists>t w su. calls s' = calls s @ t \<and> messages Warning s' = messages Warning s @ w
          \<and> messages Success s' = messages Success s @ su
          \<and> diff_path show_debug dry_run commit r t w su (messages Info s'))"
proof -
  let ?s0 = "log_info show_debug generating_diff_msg s"
  obtain rc s1 where cmp: "invoke CompareConfig ReturnedText (compare_config env) ?s0 = (rc, s1)"
    by (cases "invoke CompareConfig ReturnedText (compare_config env) ?s0")
  from dev have dev0: "napalm_device ?s0 \<noteq> None" by simp
  note e1 = invoke_effect [OF dev0 cmp]
  have m1: "\<And>lvl. messages lvl s1 = messages lvl ?s0"
    using invoke_messages [OF dev0 cmp] .
  show ?thesis
  proof (cases rc)
    case (Inl e)
    with run cmp have "r = Inl e" "s' = s1" by (simp_all add: diff_and_decide_def)
    with e1 m1 Inl show ?thesis by (auto simp: diff_path_def)
  next
    case (Inr diff)
    show ?thesis
    proof (cases "diff = []")
      case True
      let ?s2 = "log_info show_debug no_changes_msg s1"
      from run cmp Inr True
      have dis: "invoke DiscardConfig unit_outcome (discard_config env) ?s2 = (r, s')"
        by (simp add: diff_and_decide_def)
      from e1 have dev1: "napalm_device ?s2 \<noteq> None" by simp
      note e2 = invoke_effect [OF dev1 dis]
      have m2: "\<And>lvl. messages lvl s' = messages lvl ?s2"
        using invoke_messages [OF dev1 dis] .
      from discard_effect [OF dev1 dis] obtain t where
        t: "calls s' = calls ?s2 @ t" "discard_path r t" by blast
      have "calls s' = calls s @ (CompareConfig, ReturnedText []) # t"
        using t e1 Inr True by simp
      moreover have "diff_path show_debug dry_run commit r ((CompareConfig, ReturnedText []) # t)
          [] [] (messages Info s')"
        using t m2 by (simp add: diff_path_def)
      moreover have "messages Warning s' = messages Warning s @ []"
        "messages Success s' = messages Success s @ []"
        "messages Error s' = messages Error s" "napalm_device s' \<noteq> None"
        "set (messages Info s) \<subseteq> set (messages Info s')"
        using m1 m2 e2 by auto
      ultimately show ?thesis by blast
    next
      case False
      let ?s2 = "log_info show_debug rule_dashes (log_info show_debug diff
                   (log_info show_debug rule_dashes (log_info show_debug changes_msg s1)))"
      from run cmp Inr False
      have cod: "commit_or_discard env show_debug dry_run commit ?s2 = (r, s')"
        by (simp add: diff_and_decide_def)
      from e1 have dev2: "napalm_device ?s2 \<noteq> None" by simp
      note e3 = commit_or_discard_effect [OF dev2 cod]
      from e3 obtain t w su where
        t: "calls s' = calls ?s2 @ t" and w: "messages Warning s' = messages Warning ?s2 @ w"
        and su: "messages Success s' = messages Success ?s2 @ su"
        and shape: "decide_path dry_run commit r t w su"
        by blast
      have info: "show_debug \<longrightarrow> diff \<in> set (messages Info s')"
        using e3 by auto
      have "calls s' = calls s @ (CompareConfig, ReturnedText diff) # t"
        using t e1 Inr by simp
      moreover have "messages Warning s' = messages Warning s @ w"
        using w m1 by simp
      moreover have "messages Success s' = messages Success s @ su"
        using su m1 by simp
      moreover have "napalm_device s' \<noteq> None" "messages Error s' = messages Error s"
        "set (messages Info s) \<subseteq> set (messages Info s')"
        using e3 m1 by auto
      moreover have "diff_path show_debug dry_run commit r ((CompareConfig, ReturnedText diff) # t)
          w su (messages Info s')"
        using shape info False by (simp add: diff_path_def)
      ultimately show ?thesis by blast
    qed
  qed
qed


lemma load_candidate_effect:
  assumes dev: "napalm_device s \<noteq> None"
    and run: "load_candidate env show_debug config replace s = (r, s')"
  shows "napalm_device s' \<noteq> None \<and> messages Error s' = messages Error s
    \<and> set (messages Info s) \<subseteq> set (messages Info s')
    \<and> messages Warning s' = messages Warning s @ (if replace then [replace_warning] else [])
    \<and> ((\<exists>e. r = Inl e \<and> calls s' = calls s @ [(load_call config replace, Raised e)]
              \<and> messages Success s' = messages Success s)
       \<or> (r = Inr () \<and> calls s' = calls s @ [(load_call config replace, Returned)]
              \<and> messages Success s' = messages Success s @ [loaded_msg]))"
proof (cases replace)
  case True
  let ?s0 = "logger Warning replace_warning (log_info show_debug loading_msg s)"
  obtain rl s1 where ld: "invoke (LoadReplaceCandidate config) unit_outcome
      (load_replace_candidate env config) ?s0 = (rl, s1)"
    by (cases "invoke (LoadReplaceCandidate config) unit_outcome
      (load_replace_candidate env config) ?s0")
  from dev have dev0: "napalm_device ?s0 \<noteq> None" by simp
  note e1 = invoke_effect [OF dev0 ld]
  have m1: "\<And>lvl. messages lvl s1 = messages lvl ?s0"
    using invoke_messages [OF dev0 ld] .
  from run ld True show ?thesis
    using e1 m1 by (cases rl) (auto simp: load_candidate_def load_call_def unit_outcome_def)
next
  case False
  let ?s0 = "log_info show_debug merge_msg (log_info show_debug loading_msg s)"
  obtain rl s1 where ld: "invoke (LoadMergeCandidate config) unit_outcome
      (load_merge_candidate env config) ?s0 = (rl, s1)"
    by (cases "invoke (LoadMergeCandidate config) unit_outcome
      (load_merge_candidate env config) ?s0")
  from dev have dev0: "napalm_device ?s0 \<noteq> None" by simp
  note e1 = invoke_effect [OF dev0 ld]
  have m1: "\<And>lvl. messages lvl s1 = messages lvl ?s0"
    using invoke_messages [OF dev0 ld] .
  from run ld False show ?thesis
    using e1 m1 by (cases rl) (auto simp: load_candidate_def load_call_def unit_outcome_def)
qed

lemma diff_path_mono:
  assumes "diff_path show_debug dry_run commit r t w su infos"
    and "set infos \<subseteq> set infos'"
  shows "diff_path show_debug dry_run commit r t w su infos'"
proof -
  from assms(2) have sub: "\<And>x. x \<in> set infos \<Longrightarrow> x \<in> set infos'" by blast
  from assms(1) show ?thesis
    unfolding diff_path_def
    by (elim disjE exE conjE) (use sub in simp_all)
qed

lemma body_path_mono:
  assumes "body_path show_debug device config dry_run replace commit r t w su infos"
    and "set infos \<subseteq> set infos'"
  shows "body_path show_debug device config dry_run replace commit r t w su infos'"
  using assms(1) diff_path_mono [OF _ assms(2)]
  unfolding body_path_def
  by (elim disjE exE conjE) simp_all

lemma try_body_effect:
  assumes dev: "napalm_device s = None"
    and run: "try_body env show_debug device driver_name device_ip config args
                dry_run replace commit s = (r, s')"
  shows "messages Error s' = messages Error s
    \<and> set (messages Info s) \<subseteq> set (messages Info s')
    \<and> ((\<exists>e. r = Inl e \<and> napalm_device s' = None \<and> calls s' = calls s
            \<and> messages Warning s' = messages Warning s
            \<and> messages Success s' = messages Success s)
       \<or> (napalm_device s' \<noteq> None
            \<and> (\<exists>t w su. calls s' = calls s @ t
                  \<and> messages Warning s' = messages Warning s @ w
                  \<and> messages Success s' = messages Success s @ su
                  \<and> body_path show_debug device config dry_run replace commit r t w su
                       (messages Info s'))))"
proof (cases "get_network_driver env driver_name")
  case (Inl e)
  with run dev show ?thesis by (auto simp: try_body_def)
next
  case (Inr driver)
  show ?thesis
  proof (cases "driver args")
    case (Inl e)
    with run dev Inr show ?thesis by (auto simp: try_body_def)
  next
    case drv: (Inr d)
    let ?s0 = "log_info show_debug (opening_msg device_ip) (s\<lparr>napalm_device := Some d\<rparr>)"
    obtain ro s1 where opn: "invoke Open unit_outcome (open_conn env) ?s0 = (ro, s1)"
      by (cases "invoke Open unit_outcome (open_conn env) ?s0")
    have dev0: "napalm_device ?s0 \<noteq> None" by simp
    note e1 = invoke_effect [OF dev0 opn]
    have m1: "\<And>lvl. messages lvl s1 = messages lvl ?s0"
      using invoke_messages [OF dev0 opn] .
    show ?thesis
    proof (cases ro)
      case (Inl e)
      with run opn Inr drv have "r = Inl e" "s' = s1" by (simp_all add: try_body_def)
      with e1 m1 Inl show ?thesis by (auto simp: body_path_def)
    next
      case opened: (Inr u)
      let ?s2 = "logger Success (connected_msg (name device)) s1"
      obtain rl s3 where ld: "load_candidate env show_debug config replace ?s2 = (rl, s3)"
        by (cases "load_candidate env show_debug config replace ?s2")
      from e1 have dev2: "napalm_device ?s2 \<noteq> None" by simp
      note e2 = load_candidate_effect [OF dev2 ld]
      show ?thesis
      proof (cases rl)
        case (Inl e)
        with run opn Inr drv opened ld have "r = Inl e" "s' = s3"
          by (simp_all add: try_body_def)
        with e1 e2 m1 Inl opened show ?thesis
          by (auto simp: body_path_def unit_outcome_def)
      next
        case loaded: (Inr u')
        from run opn Inr drv opened ld loaded
        have dd: "diff_and_decide env show_debug dry_run commit s3 = (r, s')"
          by (simp add: try_body_def)
        from e2 have dev3: "napalm_device s3 \<noteq> None" by simp
        note e3 = diff_and_decide_effect [OF dev3 dd]
        from e3 obtain t w su where
          t: "calls s' = calls s3 @ t" and w: "messages Warning s' = messages Warning s3 @ w"
          and su: "messages Success s' = messages Success s3 @ su"
          and shape: "diff_path show_debug dry_run commit r t w su (messages Info s')"
          by blast
        have "calls s' = calls s @ (Open, Returned) # (load_call config replace, Returned) # t"
          using t e1 e2 opened loaded by (simp add: unit_outcome_def)
        moreover have "messages Warning s' = messages Warning s
            @ ((if replace then [replace_warning] else []) @ w)"
          using w e2 m1 by simp
        moreover have "messages Success s' = messages Success s
            @ (connected_msg (name device) # loaded_msg # su)"
          using su e2 m1 loaded by simp
        moreover have "body_path show_debug device config dry_run replace commit r
            ((Open, Returned) # (load_call config replace, Returned) # t)
            ((if replace then [replace_warning] else []) @ w)
            (connected_msg (name device) # loaded_msg # su) (messages Info s')"
          using shape by (simp add: body_path_def)
        moreover have "napalm_device s' \<noteq> None" "messages Error s' = messages Error s"
          using e3 e2 m1 by auto
        moreover have "set (messages Info s) \<subseteq> set (messages Info s')"
          using e3 e2 m1 by auto
        ultimately show ?thesis by blast
      qed
    qed
  qed
qed

lemma except_clauses_effect:
  "(napalm_device (except_clauses env show_debug e s) = None \<longleftrightarrow> napalm_device s = None)
    \<and> messages Warning (except_clauses env show_debug e s) = messages Warning s
    \<and> messages Success (except_clauses env show_debug e s) = messages Success s
    \<and> set (messages Info s) \<subseteq> set (messages Info (except_clauses env show_debug e s))
    \<and> (\<exists>t er. calls (except_clauses env show_debug e s) = calls s @ t
          \<and> messages Error (except_clauses env show_debug e s) = messages Error s @ er
          \<and> handler_path env e (napalm_device s \<noteq> None) t er)"
  by (cases "kind e")
     (auto simp: except_clauses_def invoke_def unit_outcome_def handler_path_def Let_def
           split: option.splits prod.splits sum.splits)

lemma finally_clause_effect:
  "messages Error (finally_clause env show_debug s) = messages Error s
    \<and> messages Success (finally_clause env show_debug s) = messages Success s
    \<and> set (messages Info s) \<subseteq> set (messages Info (finally_clause env show_debug s))
    \<and> (if napalm_device s = None then finally_clause env show_debug s = s
        else (\<exists>oc w. calls (finally_clause env show_debug s) = calls s @ [(Close, oc)]
                \<and> messages Warning (finally_clause env show_debug s) = messages Warning s @ w
                \<and> close_path oc w))"
  by (auto simp: finally_clause_def invoke_def unit_outcome_def close_path_def
           split: option.splits prod.splits sum.splits)



lemma init_state_fields [simp]:
  "calls init_state = []" "napalm_device init_state = None" "messages lvl init_state = []"
  by (simp_all add: init_state_def messages_def)

lemma handler_path_no_device:
  "handler_path env e False t er \<Longrightarrow> t = []"
  by (auto simp: handler_path_def)

lemma deploy_config_effect:
  assumes run: "deploy_config env show_debug device config username password dry_run replace
                  commit s = (res, s')"
  shows "set (messages Info s) \<subseteq> set (messages Info s')
    \<and> ((\<exists>e. res = Inl e \<and> calls s' = calls s \<and> messages Error s' = messages Error s
            \<and> messages Warning s' = messages Warning s
            \<and> messages Success s' = messages Success s)
       \<or> (\<exists>e er. res = Inr () \<and> calls s' = calls s
            \<and> messages Error s' = messages Error s @ er
            \<and> messages Warning s' = messages Warning s
            \<and> messages Success s' = messages Success s
            \<and> handler_path env e False [] er)
       \<or> (\<exists>r t w su h er oc cw. res = Inr ()
            \<and> calls s' = calls s @ t @ h @ [(Close, oc)]
            \<and> messages Error s' = messages Error s @ er
            \<and> messages Warning s' = messages Warning s @ w @ cw
            \<and> messages Success s' = messages Success s @ su
            \<and> body_path show_debug device config dry_run replace commit r t w su
                 (messages Info s')
            \<and> after_body env r h er
            \<and> close_path oc cw))"
proof (cases "primary_ip4 device")
  case None
  with run show ?thesis by (auto simp: deploy_config_def Let_def)
next
  case ip: (Some device_ip)
  show ?thesis
  proof (cases "platform device")
    case None
    with run ip show ?thesis by (auto simp: deploy_config_def Let_def)
  next
    case pl: (Some p)
    let ?s2 = "log_info show_debug (method_msg replace)
                 (log_info show_debug (mode_msg dry_run)
                    (log_info show_debug (driver_msg (napalm_driver p))
                       (log_info show_debug (device_ip_msg device_ip)
                          (log_info show_debug connecting_msg
                             (log_info show_debug rule_dashes s)))))"
    show ?thesis
    proof (cases "parse_optional_args env p")
      case (Inl e)
      with run ip pl show ?thesis by (auto simp: deploy_config_def Let_def)
    next
      case args: (Inr a)
      let ?s0 = "?s2\<lparr>napalm_device := None\<rparr>"
      let ?args = "\<lparr>hostname = device_ip, conn_username = username,
                    conn_password = password, optional_args = a\<rparr>"
      obtain r s3 where body: "try_body env show_debug device (napalm_driver p) device_ip config
          ?args dry_run replace commit ?s0 = (r, s3)"
        by (cases "try_body env show_debug device (napalm_driver p) device_ip config
          ?args dry_run replace commit ?s0")
      have dev0: "napalm_device ?s0 = None" by simp
      note eb = try_body_effect [OF dev0 body]
      have pre: "calls ?s0 = calls s" "messages Error ?s0 = messages Error s"
        "messages Warning ?s0 = messages Warning s" "messages Success ?s0 = messages Success s"
        "set (messages Info s) \<subseteq> set (messages Info ?s0)"
        by auto
      show ?thesis
      proof (cases r)
        case (Inl e)
        let ?s4 = "except_clauses env show_debug e s3"
        from run ip pl args body Inl
        have s': "s' = finally_clause env show_debug ?s4" and res: "res = Inr ()"
          by (simp_all add: deploy_config_def Let_def)
        note eh = except_clauses_effect [of env show_debug e s3]
        note ef = finally_clause_effect [of env show_debug ?s4]
        from eh obtain h er where
          h: "calls ?s4 = calls s3 @ h" "messages Error ?s4 = messages Error s3 @ er"
             "handler_path env e (napalm_device s3 \<noteq> None) h er"
          by blast
        have info: "set (messages Info s) \<subseteq> set (messages Info s')"
          "set (messages Info s3) \<subseteq> set (messages Info s')"
          using pre eb eh ef s' by auto
        show ?thesis
        proof (cases "napalm_device s3 = None")
          case True
          with eh ef s' have same: "s' = ?s4" by simp
          from True h handler_path_no_device have "h = []" by fastforce
          with True eb h eh same pre res info Inl show ?thesis by auto
        next
          case False
          with eb obtain t w su where
            t: "calls s3 = calls ?s0 @ t" "messages Warning s3 = messages Warning ?s0 @ w"
               "messages Success s3 = messages Success ?s0 @ su"
               "body_path show_debug device config dry_run replace commit r t w su
                  (messages Info s3)"
            by blast
          from False eh have dev4: "napalm_device ?s4 \<noteq> None" by simp
          with ef s' obtain oc cw where
            c: "calls s' = calls ?s4 @ [(Close, oc)]"
               "messages Warning s' = messages Warning ?s4 @ cw" "close_path oc cw"
            by auto
          have "calls s' = calls s @ t @ h @ [(Close, oc)]"
            using c t h pre by simp
          moreover have "messages Error s' = messages Error s @ er"
            using ef s' h eb pre by simp
          moreover have "messages Warning s' = messages Warning s @ w @ cw"
            using c eh t pre by simp
          moreover have "messages Success s' = messages Success s @ su"
            using ef s' eh t pre by simp
          moreover have "body_path show_debug device config dry_run replace commit r t w su
              (messages Info s')"
            using body_path_mono [OF t(4) info(2)] .
          moreover have "after_body env r h er"
            using Inl h False by (simp add: after_body_def)
          ultimately show ?thesis using res info c(3) by blast
        qed
      next
        case (Inr u)
        from run ip pl args body Inr
        have s': "s' = finally_clause env show_debug s3" and res: "res = Inr ()"
          by (simp_all add: deploy_config_def Let_def)
        note ef = finally_clause_effect [of env show_debug s3]
        from eb Inr obtain t w su where
          t: "calls s3 = calls ?s0 @ t" "messages Warning s3 = messages Warning ?s0 @ w"
             "messages Success s3 = messages Success ?s0 @ su"
             "body_path show_debug device config dry_run replace commit r t w su
                (messages Info s3)"
          and dev3: "napalm_device s3 \<noteq> None"
          by blast
        have info: "set (messages Info s) \<subseteq> set (messages Info s')"
          "set (messages Info s3) \<subseteq> set (messages Info s')"
          using pre eb ef s' by auto
        from dev3 ef s' obtain oc cw where
          c: "calls s' = calls s3 @ [(Close, oc)]"
             "messages Warning s' = messages Warning s3 @ cw" "close_path oc cw"
          by auto
        have "calls s' = calls s @ t @ [] @ [(Close, oc)]"
          using c t pre by simp
        moreover have "messages Error s' = messages Error s @ []"
          using ef s' eb pre by simp
        moreover have "messages Warning s' = messages Warning s @ w @ cw"
          using c t pre by simp
        moreover have "messages Success s' = messages Success s @ su"
          using ef s' t pre by simp
        moreover have "body_path show_debug device config dry_run replace commit r t w su
            (messages Info s')"
          using body_path_mono [OF t(4) info(2)] .
        moreover have "after_body env r [] []"
          using Inr by (simp add: after_body_def)
        ultimately show ?thesis using res info c(3) by blast
      qed
    qed
  qed
qed

lemma init_state_logs [simp]: "logs init_state = []"
  by (simp add: init_state_def)

lemma load_call_neq [simp]:
  "load_call config replace \<noteq> Open" "load_call config replace \<noteq> Close"
  "load_call config replace \<noteq> CompareConfig" "load_call config replace \<noteq> DiscardConfig"
  "load_call config replace \<noteq> CommitConfig" "load_call config replace \<noteq> GetFacts"
  "Open \<noteq> load_call config replace" "Close \<noteq> load_call config replace"
  "CompareConfig \<noteq> load_call config replace" "DiscardConfig \<noteq> load_call config replace"
  "CommitConfig \<noteq> load_call config replace" "GetFacts \<noteq> load_call config replace"
  by (simp_all add: load_call_def)

lemma attempt_paths:
  fixes env :: "'d env" and show_debug dry_run replace commit :: bool
    and device :: device and config username password :: string
  defines "S \<equiv> attempt env show_debug device config username password dry_run replace commit"
  shows "(calls S = [] \<and> messages Warning S = [] \<and> messages Success S = [])
    \<or> (\<exists>r t w su h er oc cw. calls S = t @ h @ [(Close, oc)]
          \<and> fst (deploy_config env show_debug device config username password dry_run
                   replace commit init_state) = Inr ()
          \<and> messages Error S = er \<and> messages Warning S = w @ cw \<and> messages Success S = su
          \<and> body_path show_debug device config dry_run replace commit r t w su (messages Info S)
          \<and> after_body env r h er
          \<and> close_path oc cw)"
proof -
  obtain res where run: "deploy_config env show_debug device config username password dry_run
      replace commit init_state = (res, S)"
    unfolding S_def attempt_def
    by (cases "deploy_config env show_debug device config username password dry_run
      replace commit init_state") simp
  from deploy_config_effect [OF run] show ?thesis
    by (elim conjE disjE exE) (simp, simp, simp add: run, blast)
qed

lemmas path_defs = body_path_def diff_path_def decide_path_def discard_path_def
  handler_path_def after_body_def

lemmas run_defs = attempt_def deploy_config_def try_body_def load_candidate_def
  diff_and_decide_def commit_or_discard_def except_clauses_def finally_clause_def invoke_def
  unit_outcome_def parse_optional_args_def Let_def

lemmas lab_defs = lab_env_def lab_device_def lab_platform_def bad_args_platform_def
  env_open_fails_def env_commit_fails_def
  env_discard_fails_def env_facts_fail_def env_no_diff_def env_no_diff_discard_fails_def
  open_fails_def commit_fails_def discard_fails_def facts_fail_def no_diff_def
  bad_args_device_def empty_record_def env_empty_config_def

subsection \<open>The lab runs\<close>

lemma eval_open_fails:
  "calls (attempt env_open_fails False lab_device ''vlan 10'' ''netops'' ''admin'' True False True)
     = [(Open, Raised timeout_error), (Close, Returned)]"
  "messages Error (attempt env_open_fails False lab_device ''vlan 10'' ''netops'' ''admin'' True False True)
     = [connection_error_msg timeout_error, please_verify_msg]"
  by (simp_all add: run_defs lab_defs timeout_error_def)

lemma eval_dry_run:
  "logs (attempt lab_env False lab_device ''vlan 10'' ''netops'' ''admin'' True False True)
     = [(Success, connected_msg ''r1''), (Success, loaded_msg), (Warning, dry_run_warning)]"
  "calls (attempt lab_env False lab_device ''vlan 10'' ''netops'' ''admin'' True False True)
     = [(Open, Returned), (LoadMergeCandidate ''vlan 10'', Returned),
        (CompareConfig, ReturnedText ''+vlan 10''), (DiscardConfig, Returned), (Close, Returned)]"
  by (simp_all add: run_defs lab_defs log_info_def logger_def)


lemma eval_dry_run_debug:
  "calls (attempt lab_env True lab_device ''vlan 10'' ''netops'' ''admin'' True False True)
     = [(Open, Returned), (LoadMergeCandidate ''vlan 10'', Returned),
        (CompareConfig, ReturnedText ''+vlan 10''), (DiscardConfig, Returned), (Close, Returned)]"
  by (simp add: run_defs lab_defs)

lemma eval_no_diff:
  "calls (attempt env_no_diff True lab_device ''vlan 10'' ''netops'' ''admin'' False False True)
     = [(Open, Returned), (LoadMergeCandidate ''vlan 10'', Returned),
        (CompareConfig, ReturnedText []), (DiscardConfig, Returned), (Close, Returned)]"
  by (simp add: run_defs lab_defs)

lemma eval_no_diff_discard_fails:
  "calls (attempt env_no_diff_discard_fails False lab_device ''vlan 10'' ''netops'' ''admin''
            False False True)
     = [(Open, Returned), (LoadMergeCandidate ''vlan 10'', Returned),
        (CompareConfig, ReturnedText []), (DiscardConfig, Raised runtime_error),
        (DiscardConfig, Raised runtime_error), (Close, Returned)]"
  "messages Error (attempt env_no_diff_discard_fails False lab_device ''vlan 10'' ''netops''
            ''admin'' False False True)
     = [unexpected_error_msg runtime_error, format_exc env_no_diff_discard_fails runtime_error,
        discard_failed_msg runtime_error]"
  by (simp_all add: run_defs lab_defs runtime_error_def)

lemma eval_commit:
  "calls (attempt lab_env False lab_device ''vlan 10'' ''netops'' ''admin'' False False True)
     = [(Open, Returned), (LoadMergeCandidate ''vlan 10'', Returned),
        (CompareConfig, ReturnedText ''+vlan 10''), (CommitConfig, Returned),
        (GetFacts, ReturnedFacts [(''hostname'', ''r1'')]), (Close, Returned)]"
  by (simp add: run_defs lab_defs)

lemma eval_commit_fails:
  "calls (attempt env_commit_fails False lab_device ''vlan 10'' ''netops'' ''admin''
            False False True)
     = [(Open, Returned), (LoadMergeCandidate ''vlan 10'', Returned),
        (CompareConfig, ReturnedText ''+vlan 10''), (CommitConfig, Raised commit_error),
        (Close, Returned)]"
  "messages Error (attempt env_commit_fails False lab_device ''vlan 10'' ''netops''
            ''admin'' False False True)
     = [deployment_error_msg commit_error, rolled_back_msg]"
  by (simp_all add: run_defs lab_defs commit_error_def)

lemma eval_facts_fail:
  "calls (attempt env_facts_fail False lab_device ''vlan 10'' ''netops'' ''admin''
            False False True)
     = [(Open, Returned), (LoadMergeCandidate ''vlan 10'', Returned),
        (CompareConfig, ReturnedText ''+vlan 10''), (CommitConfig, Returned),
        (GetFacts, Raised runtime_error), (DiscardConfig, Returned), (Close, Returned)]"
  "messages Error (attempt env_facts_fail False lab_device ''vlan 10'' ''netops''
            ''admin'' False False True)
     = [unexpected_error_msg runtime_error, format_exc env_facts_fail runtime_error]"
  "messages Warning (attempt env_facts_fail False lab_device ''vlan 10'' ''netops''
            ''admin'' False False True) = []"
  by (simp_all add: run_defs lab_defs runtime_error_def)

lemma eval_commit_disabled:
  "calls (attempt env_discard_fails False lab_device ''vlan 10'' ''netops'' ''admin''
            False False False)
     = [(Open, Returned), (LoadMergeCandidate ''vlan 10'', Returned),
        (CompareConfig, ReturnedText ''+vlan 10''), (DiscardConfig, Raised runtime_error),
        (DiscardConfig, Raised runtime_error), (Close, Returned)]"
  "messages Error (attempt env_discard_fails False lab_device ''vlan 10'' ''netops''
            ''admin'' False False False)
     = [unexpected_error_msg runtime_error, format_exc env_discard_fails runtime_error,
        discard_failed_msg runtime_error]"
  "messages Warning (attempt env_discard_fails False lab_device ''vlan 10'' ''netops''
            ''admin'' False False False) = [commit_disabled_warning]"
  "messages Error (attempt lab_env False lab_device ''vlan 10'' ''netops''
            ''admin'' False False False) = []"
  by (simp_all add: run_defs lab_defs runtime_error_def)

lemmas job_defs = run_def validate_device_def get_credentials_def username_from_group_def
  password_from_group_def get_intended_config_def generate_config_def

lemma eval_default_run:
  "logs (snd (run lab_env lab_device True False True False init_state))
     = [(Success, validation_passed_msg), (Success, username_retrieved_msg ''netops''),
        (Success, using_group_msg ''lab''), (Success, found_config_msg ''unknown''),
        (Success, connected_msg ''r1''), (Success, loaded_msg), (Warning, dry_run_warning),
        (Success, completed_msg ''r1'')]"
  by (simp add: run_defs job_defs lab_defs log_info_def log_debug_def logger_def)

lemma eval_empty_config:
  "calls (snd (run env_empty_config lab_device False False True False init_state)) = []"
  "messages Error (snd (run env_empty_config lab_device False False True False init_state))
     = [run_generate_first_msg, no_config_msg]"
  "messages Warning (snd (run env_empty_config lab_device False False True False init_state))
     = [no_intended_msg]"
  "messages Success (snd (run env_empty_config lab_device False False True False init_state))
     = [validation_passed_msg, username_retrieved_msg ''netops'', using_group_msg ''lab'']"
  by (simp_all add: job_defs lab_defs)

lemma eval_bad_args:
  "fst (deploy_config lab_env False bad_args_device ''vlan 10'' ''netops'' ''admin''
          True False True init_state) = Inl json_error"
  "fst (run lab_env bad_args_device True False True False init_state) = Inl json_error"
  "messages Success (snd (run lab_env bad_args_device True False True False init_state))
     = [validation_passed_msg, username_retrieved_msg ''netops'', using_group_msg ''lab'',
        found_config_msg ''unknown'']"
  by (simp_all add: run_defs job_defs lab_defs bad_args_device_def)

lemma eval_open_fails_run:
  "last (messages Success (snd (run env_open_fails lab_device True False True False init_state)))
     = completed_msg ''r1''"
  "messages Error (snd (run env_open_fails lab_device True False True False init_state))
     = [connection_error_msg timeout_error, please_verify_msg]"
  by (simp_all add: run_defs job_defs lab_defs timeout_error_def)

subsection \<open>The rest of the job\<close>

lemma fold_log_info_fields [simp]:
  "calls (fold (log_info b) ms s) = calls s"
  "napalm_device (fold (log_info b) ms s) = napalm_device s"
  "messages Error (fold (log_info b) ms s) = messages Error s"
  "messages Warning (fold (log_info b) ms s) = messages Warning s"
  "messages Success (fold (log_info b) ms s) = messages Success s"
  by (induction ms arbitrary: s) simp_all

lemma validate_device_calls [simp]:
  "calls (snd (validate_device show_debug device s)) = calls s"
  by (simp add: validate_device_def Let_def split: option.split)

lemma validate_device_result:
  "fst (validate_device show_debug device s)
     = (\<exists>p. platform device = Some p \<and> napalm_driver p \<noteq> [] \<and> primary_ip4 device \<noteq> None)"
  by (simp add: validate_device_def Let_def split: option.split)

lemma get_credentials_calls [simp]:
  "calls (snd (get_credentials env show_debug device s)) = calls s"
  by (simp add: get_credentials_def username_from_group_def password_from_group_def
           split: option.split sum.split prod.split)

lemma get_intended_config_calls [simp]:
  "calls (snd (get_intended_config env show_debug device s)) = calls s"
  by (simp add: get_intended_config_def generate_config_def Let_def split: option.split)

lemma get_intended_config_result:
  "fst (get_intended_config env show_debug device s)
     = (if golden_config_import env then
          (case golden_config_get env device of
             None \<Rightarrow> None
           | Some gc \<Rightarrow> if intended_config gc \<noteq> [] then Some (intended_config gc) else None)
        else None)"
  by (simp add: get_intended_config_def generate_config_def Let_def split: option.split)

lemma deploy_config_returns:
  assumes "platform device = Some p" and "primary_ip4 device = Some ip"
    and "parse_optional_args env p = Inr a"
  shows "fst (deploy_config env show_debug device config username password dry_run replace
                commit s) = Inr ()"
  using assms by (simp add: deploy_config_def Let_def split: prod.split sum.split)


section \<open>The claims\<close>

text \<open>
  In the statements below, \<open>S\<close> is the state in which one deployment attempt ends, for
  any environment and any arguments; \<open>A\<close>, \<open>B\<close> and \<open>R\<close> are lab runs.
\<close>

subsection \<open>C1: the connection cannot be opened\<close>

text \<open>
  Claim C1 says that when \<open>open\<close> raises a connection failure, the attempt fails and
  \<open>close\<close> is never called. The first part holds, the second does not:
  \<open>napalm_device\<close> is assigned before \<open>open\<close> is called, so the \<open>finally\<close> clause finds
  a driver object and closes it. In the lab run below \<open>open\<close> times out and \<open>close\<close> is
  the second call.
\<close>

theorem close_called_after_connection_failure:
  fixes A :: "unit state"
  defines "A \<equiv> attempt env_open_fails False lab_device ''vlan 10'' ''netops'' ''admin''
                 True False True"
  shows "calls A = [(Open, Raised timeout_error), (Close, Returned)]
    \<and> kind timeout_error = ConnectionException"
  unfolding A_def by (simp add: eval_open_fails timeout_error_def)

text \<open>
  Claim C1, amended: in every attempt in which \<open>open\<close> raises a \<open>ConnectionException\<close>,
  the only calls are \<open>open\<close> and then \<open>close\<close> (nothing is staged, compared, committed or
  discarded, and \<open>close\<close> is called once on the driver object), and the errors logged are
  the connection error, with the message of the exception, and the advice that follows
  it.
\<close>

theorem connection_failure_still_closes:
  fixes env :: "'d env" and show_debug dry_run replace commit :: bool
    and device :: device and config username password :: string
  defines "S \<equiv> attempt env show_debug device config username password dry_run replace commit"
  assumes "(Open, Raised e) \<in> set (calls S)" and "kind e = ConnectionException"
  shows "methods S = [Open, Close]
    \<and> messages Error S = [connection_error_msg e, please_verify_msg]"
proof -
  note P = attempt_paths [of env show_debug device config username password dry_run replace commit,
      folded S_def]
  from P assms show ?thesis
    unfolding path_defs
    by (elim disjE exE conjE; simp add: methods_def)
qed

theorem connection_failure_still_closes_witness:
  fixes A :: "unit state"
  defines "A \<equiv> attempt env_open_fails False lab_device ''vlan 10'' ''netops'' ''admin''
                 True False True"
  shows "(Open, Raised timeout_error) \<in> set (calls A)
    \<and> kind timeout_error = ConnectionException
    \<and> methods A = [Open, Close]
    \<and> messages Error A = [connection_error_msg timeout_error, please_verify_msg]"
proof -
  have h1: "(Open, Raised timeout_error) \<in> set (calls (attempt env_open_fails False lab_device
         ''vlan 10'' ''netops'' ''admin'' True False True))"
    by (simp add: eval_open_fails)
  have h2: "kind timeout_error = ConnectionException"
    by (simp add: timeout_error_def)
  from connection_failure_still_closes [OF h1 h2] h1 h2 show ?thesis
    unfolding A_def by simp
qed

subsection \<open>C2: \<open>close\<close> is called once\<close>

text \<open>
  Claim C2: in every attempt that reaches the call of \<open>open\<close>, \<open>close\<close> is called exactly
  once, and it is the last call. The statement is about every environment, so about
  every way the attempt can end: a commit, an empty diff, a discard, an exception of any
  kind raised by any method, \<open>close\<close> itself included.
\<close>

theorem close_exactly_once:
  fixes env :: "'d env" and show_debug dry_run replace commit :: bool
    and device :: device and config username password :: string
  defines "S \<equiv> attempt env show_debug device config username password dry_run replace commit"
  assumes "Open \<in> set (methods S)"
  shows "count_list (methods S) Close = 1 \<and> last (methods S) = Close"
proof -
  note P = attempt_paths [of env show_debug device config username password dry_run replace commit,
      folded S_def]
  from P assms show ?thesis
    unfolding path_defs
    by (elim disjE exE conjE; simp add: methods_def)
qed

theorem close_exactly_once_witness:
  fixes A :: "unit state"
  defines "A \<equiv> attempt lab_env False lab_device ''vlan 10'' ''netops'' ''admin''
                 True False True"
  shows "Open \<in> set (methods A) \<and> count_list (methods A) Close = 1
    \<and> last (methods A) = Close"
proof -
  have h: "Open \<in> set (methods (attempt lab_env False lab_device
         ''vlan 10'' ''netops'' ''admin'' True False True))"
    by (simp add: methods_def eval_dry_run)
  from close_exactly_once [OF h] h show ?thesis
    unfolding A_def by simp
qed

subsection \<open>C3: a dry run\<close>

text \<open>
  Claim C3 says that with \<open>dry_run\<close> set no commit is ever made, whatever
  \<open>commit_on_success\<close> is, and that with a diff that is not empty the staged changes are
  discarded, the outcome is the dry-run discard and the diff text is in the result. The
  job breaks the last part at its default inputs (\<open>dry_run\<close> set, \<open>show_debug\<close> not set).
  It returns nothing, so the log is the only place for the diff, and it logs the diff
  with \<open>_log_info\<close>, which is silent unless \<open>show_debug\<close> is set; the description of
  the \<open>dry_run\<close> field says that a dry run shows the diff. In the lab run \<open>A\<close> below every
  method succeeds and \<open>compare_config\<close> returns \<open>+vlan 10\<close>: the attempt discards and
  closes without a commit, and neither its log nor the log of the whole job \<open>R\<close>
  carries the diff.
\<close>

theorem dry_run_diff_not_logged:
  fixes A :: "unit state" and R :: "(exn + unit) \<times> unit state"
  defines "A \<equiv> attempt lab_env False lab_device ''vlan 10'' ''netops'' ''admin''
                 True False True"
    and "R \<equiv> run lab_env lab_device True False True False init_state"
  shows "calls A
      = [(Open, Returned), (LoadMergeCandidate ''vlan 10'', Returned),
         (CompareConfig, ReturnedText ''+vlan 10''), (DiscardConfig, Returned),
         (Close, Returned)]
    \<and> logs A
      = [(Success, ''Connected to r1''), (Success, ''Configuration loaded successfully''),
         (Warning, ''DRY RUN mode: Discarding configuration changes'')]
    \<and> logs (snd R)
      = [(Success, ''Device validation passed''),
         (Success, check_mark @ '' Retrieved username from secrets group: netops''),
         (Success, ''Using credentials from secrets group: lab''),
         (Success, ''Found existing intended config (last updated: unknown)''),
         (Success, ''Connected to r1''), (Success, ''Configuration loaded successfully''),
         (Warning, ''DRY RUN mode: Discarding configuration changes''),
         (Success, ''Provisioning completed for r1'')]"
  unfolding A_def R_def
  by (simp add: eval_dry_run eval_default_run validation_passed_msg_def
        username_retrieved_msg_def using_group_msg_def found_config_msg_def connected_msg_def
        loaded_msg_def dry_run_warning_def completed_msg_def)

text \<open>
  The rest of what is said of a dry run holds of the job: in every attempt with
  \<open>dry_run\<close> set, \<open>commit_config\<close> is never called, whatever \<open>commit\<close> is; and when
  \<open>compare_config\<close> returned a diff that is not empty, \<open>discard_config\<close> is called, the
  dry-run warning is logged, and no error is logged when the one call of
  \<open>discard_config\<close> returned.
\<close>

lemma dry_run_never_commits:
  fixes env :: "'d env" and show_debug replace commit :: bool
    and device :: device and config username password :: string
  defines "S \<equiv> attempt env show_debug device config username password True replace commit"
  shows "CommitConfig \<notin> set (methods S)
    \<and> ((CompareConfig, ReturnedText diff) \<in> set (calls S) \<and> diff \<noteq> [] \<longrightarrow>
         DiscardConfig \<in> set (methods S)
         \<and> dry_run_warning \<in> set (messages Warning S)
         \<and> (outcomes DiscardConfig S = [Returned] \<longrightarrow> messages Error S = []))"
proof -
  note P = attempt_paths [of env show_debug device config username password True replace commit,
      folded S_def]
  from P show ?thesis
    unfolding path_defs
    by (elim disjE exE conjE; simp add: methods_def outcomes_def)
qed

lemma dry_run_never_commits_witness:
  fixes A :: "unit state"
  defines "A \<equiv> attempt lab_env True lab_device ''vlan 10'' ''netops'' ''admin''
                 True False True"
  shows "(CompareConfig, ReturnedText ''+vlan 10'') \<in> set (calls A)
    \<and> ''+vlan 10'' \<noteq> []
    \<and> outcomes DiscardConfig A = [Returned]
    \<and> CommitConfig \<notin> set (methods A)
    \<and> DiscardConfig \<in> set (methods A)
    \<and> dry_run_warning \<in> set (messages Warning A)
    \<and> messages Error A = []"
proof -
  have h1: "(CompareConfig, ReturnedText ''+vlan 10'') \<in> set (calls (attempt lab_env True lab_device
         ''vlan 10'' ''netops'' ''admin'' True False True))"
    by (simp add: eval_dry_run_debug)
  have h2: "outcomes DiscardConfig (attempt lab_env True lab_device
         ''vlan 10'' ''netops'' ''admin'' True False True) = [Returned]"
    by (simp add: outcomes_def eval_dry_run_debug)
  from dry_run_never_commits [where env = lab_env and show_debug = True
      and device = lab_device and config = "''vlan 10''" and username = "''netops''"
      and password = "''admin''" and replace = False and commit = True
      and diff = "''+vlan 10''"] h1 h2
  show ?thesis unfolding A_def by simp
qed

subsection \<open>C4: an empty diff\<close>

text \<open>
  Claim C4 says that an empty diff ends the attempt with a discard, a close, the no-op
  outcome and no commit. The outcome is not always the no-op: the discard at line 355 is
  not protected, so when it raises, the attempt is reported as an unexpected error and
  the discard is tried a second time. In the lab run below the diff is empty and
  \<open>discard_config\<close> raises.
\<close>

theorem empty_diff_discard_failure_reported:
  fixes A :: "unit state"
  defines "A \<equiv> attempt env_no_diff_discard_fails False lab_device ''vlan 10'' ''netops'' ''admin''
                 False False True"
  shows "calls A
      = [(Open, Returned), (LoadMergeCandidate ''vlan 10'', Returned),
         (CompareConfig, ReturnedText []), (DiscardConfig, Raised runtime_error),
         (DiscardConfig, Raised runtime_error), (Close, Returned)]
    \<and> messages Error A
      = [''Unexpected error during deployment: session lost'',
         format_exc env_no_diff_discard_fails runtime_error,
         ''Could not discard config: session lost'']"
  unfolding A_def
  by (simp add: eval_no_diff_discard_fails unexpected_error_msg_def discard_failed_msg_def
        runtime_error_def)

text \<open>
  Claim C4, amended: in every attempt in which \<open>compare_config\<close> returned the empty text,
  \<open>commit_config\<close> is never called, whatever \<open>dry_run\<close> and \<open>commit\<close> are; the first four
  calls are \<open>open\<close>, the load, \<open>compare_config\<close> and \<open>discard_config\<close>; \<open>close\<close> is called
  once, last; with \<open>show_debug\<close> set the message that nothing changed is logged; and when
  the one call of \<open>discard_config\<close> returned, nothing else is called and no error is
  logged.
\<close>

theorem empty_diff_short_circuit:
  fixes env :: "'d env" and show_debug dry_run replace commit :: bool
    and device :: device and config username password :: string
  defines "S \<equiv> attempt env show_debug device config username password dry_run replace commit"
  assumes "(CompareConfig, ReturnedText []) \<in> set (calls S)"
  shows "CommitConfig \<notin> set (methods S)
    \<and> take 4 (methods S)
        = [Open, if replace then LoadReplaceCandidate config else LoadMergeCandidate config,
           CompareConfig, DiscardConfig]
    \<and> count_list (methods S) Close = 1
    \<and> last (methods S) = Close
    \<and> (show_debug \<longrightarrow> no_changes_msg \<in> set (messages Info S))
    \<and> (outcomes DiscardConfig S = [Returned] \<longrightarrow>
         methods S
           = [Open, if replace then LoadReplaceCandidate config else LoadMergeCandidate config,
              CompareConfig, DiscardConfig, Close]
         \<and> messages Error S = [])"
proof -
  note P = attempt_paths [of env show_debug device config username password dry_run replace commit,
      folded S_def]
  from P assms have "CommitConfig \<notin> set (methods S)
    \<and> take 4 (methods S) = [Open, load_call config replace, CompareConfig, DiscardConfig]
    \<and> count_list (methods S) Close = 1
    \<and> last (methods S) = Close
    \<and> (show_debug \<longrightarrow> no_changes_msg \<in> set (messages Info S))
    \<and> (outcomes DiscardConfig S = [Returned] \<longrightarrow>
         methods S = [Open, load_call config replace, CompareConfig, DiscardConfig, Close]
         \<and> messages Error S = [])"
    unfolding path_defs
    by (elim disjE exE conjE; simp add: methods_def outcomes_def)
  then show ?thesis unfolding load_call_def .
qed

theorem empty_diff_short_circuit_witness:
  fixes A :: "unit state"
  defines "A \<equiv> attempt env_no_diff True lab_device ''vlan 10'' ''netops'' ''admin''
                 False False True"
  shows "(CompareConfig, ReturnedText []) \<in> set (calls A)
    \<and> outcomes DiscardConfig A = [Returned]
    \<and> CommitConfig \<notin> set (methods A)
    \<and> count_list (methods A) Close = 1
    \<and> no_changes_msg \<in> set (messages Info A)
    \<and> methods A = [Open, LoadMergeCandidate ''vlan 10'', CompareConfig, DiscardConfig, Close]
    \<and> messages Error A = []"
proof -
  have h1: "(CompareConfig, ReturnedText []) \<in> set (calls (attempt env_no_diff True lab_device
         ''vlan 10'' ''netops'' ''admin'' False False True))"
    by (simp add: eval_no_diff)
  have h2: "outcomes DiscardConfig (attempt env_no_diff True lab_device
         ''vlan 10'' ''netops'' ''admin'' False False True) = [Returned]"
    by (simp add: outcomes_def eval_no_diff)
  from empty_diff_short_circuit [OF h1] h1 h2 show ?thesis
    unfolding A_def by simp
qed

subsection \<open>C5: the commit\<close>

text \<open>
  Claim C5 says that without \<open>dry_run\<close>, with \<open>commit\<close> and a diff that is not empty, the
  commit is made once, that its success is reported as committed and its failure as
  failed with the error, and that a rollback is never reported unless the driver signals
  one. The last part fails: the handler of \<open>CommitError\<close> and \<open>ReplaceConfigException\<close>
  logs that the configuration has been rolled back, and nothing the driver returns is
  looked at. In the lab run below \<open>commit_config\<close> raises a \<open>CommitError\<close>.
\<close>

theorem commit_failure_reports_rollback:
  fixes A :: "unit state"
  defines "A \<equiv> attempt env_commit_fails False lab_device ''vlan 10'' ''netops'' ''admin''
                 False False True"
  shows "calls A
      = [(Open, Returned), (LoadMergeCandidate ''vlan 10'', Returned),
         (CompareConfig, ReturnedText ''+vlan 10''), (CommitConfig, Raised commit_error),
         (Close, Returned)]
    \<and> messages Error A
      = [''Configuration deployment error: invalid command'',
         ''Configuration has been rolled back'']"
  unfolding A_def
  by (simp add: eval_commit_fails deployment_error_msg_def rolled_back_msg_def commit_error_def)

text \<open>
  Claim C5, amended: in every attempt without \<open>dry_run\<close> and with \<open>commit\<close> in which
  \<open>compare_config\<close> returned a diff that is not empty, \<open>commit_config\<close> is called exactly
  once. When it returned, the success message of the commit is logged. When it raised
  \<open>e\<close>, no commit success is logged and the first two errors logged are those of the
  handler of \<open>e\<close>: for a \<open>CommitError\<close> or a \<open>ReplaceConfigException\<close> the deployment error
  with the message of \<open>e\<close>, followed by the statement that the configuration has been
  rolled back.
\<close>

theorem commit_once_and_reported:
  fixes env :: "'d env" and show_debug replace :: bool
    and device :: device and config username password :: string
  defines "S \<equiv> attempt env show_debug device config username password False replace True"
  assumes "(CompareConfig, ReturnedText diff) \<in> set (calls S)" and "diff \<noteq> []"
  shows "count_list (methods S) CommitConfig = 1
    \<and> ((CommitConfig, Returned) \<in> set (calls S) \<longrightarrow>
         committed_msg \<in> set (messages Success S))
    \<and> ((CommitConfig, Raised e) \<in> set (calls S) \<longrightarrow>
         messages Success S = [connected_msg (name device), loaded_msg]
         \<and> take 2 (messages Error S)
             = (if kind e = ConnectionException
                then [connection_error_msg e, please_verify_msg]
                else if kind e = OtherException
                then [unexpected_error_msg e, format_exc env e]
                else [deployment_error_msg e, rolled_back_msg]))"
proof -
  note P = attempt_paths [of env show_debug device config username password False replace True,
      folded S_def]
  from P assms show ?thesis
    unfolding path_defs
    by (elim disjE exE conjE; simp add: methods_def)
qed

theorem commit_once_and_reported_witness:
  fixes A B :: "unit state"
  defines "A \<equiv> attempt lab_env False lab_device ''vlan 10'' ''netops'' ''admin''
                 False False True"
    and "B \<equiv> attempt env_commit_fails False lab_device ''vlan 10'' ''netops'' ''admin''
             False False True"
  shows "(CompareConfig, ReturnedText ''+vlan 10'') \<in> set (calls A)
    \<and> ''+vlan 10'' \<noteq> []
    \<and> (CommitConfig, Returned) \<in> set (calls A)
    \<and> count_list (methods A) CommitConfig = 1
    \<and> committed_msg \<in> set (messages Success A)
    \<and> (CompareConfig, ReturnedText ''+vlan 10'') \<in> set (calls B)
    \<and> (CommitConfig, Raised commit_error) \<in> set (calls B)
    \<and> count_list (methods B) CommitConfig = 1
    \<and> messages Success B = [connected_msg ''r1'', loaded_msg]
    \<and> take 2 (messages Error B) = [deployment_error_msg commit_error, rolled_back_msg]"
proof -
  have h1: "(CompareConfig, ReturnedText ''+vlan 10'') \<in> set (calls (attempt lab_env False lab_device
         ''vlan 10'' ''netops'' ''admin'' False False True))"
    and h2: "(CommitConfig, Returned) \<in> set (calls (attempt lab_env False lab_device
         ''vlan 10'' ''netops'' ''admin'' False False True))"
    by (simp_all add: eval_commit)
  have h3: "(CompareConfig, ReturnedText ''+vlan 10'') \<in> set (calls (attempt env_commit_fails False lab_device
         ''vlan 10'' ''netops'' ''admin'' False False True))"
    and h4: "(CommitConfig, Raised commit_error) \<in> set (calls (attempt env_commit_fails False lab_device
         ''vlan 10'' ''netops'' ''admin'' False False True))"
    by (simp_all add: eval_commit_fails)
  have h5: "''+vlan 10'' \<noteq> []" by simp
  have k: "kind commit_error = CommitError" "name lab_device = ''r1''"
    by (simp_all add: commit_error_def lab_device_def)
  from commit_once_and_reported [OF h1 h5, where e = commit_error]
    commit_once_and_reported [OF h3 h5, where e = commit_error] h1 h2 h3 h4 k
  show ?thesis unfolding A_def B_def by simp
qed

subsection \<open>C6: the facts after the commit\<close>

text \<open>
  Claim C6 says that when \<open>get_facts\<close> fails after a commit that succeeded, the failure is
  only a warning, the outcome stays committed and no discard is attempted. None of this
  holds: the call at line 375 is not protected, so its exception reaches the \<open>except\<close>
  clauses like any other, is logged as an error, and for an unexpected exception the
  handler calls \<open>discard_config\<close> (it asks only whether the driver object exists, not
  whether a commit was made). In the lab run below \<open>get_facts\<close> raises after the commit.
\<close>

theorem facts_failure_discards_after_commit:
  fixes A :: "unit state"
  defines "A \<equiv> attempt env_facts_fail False lab_device ''vlan 10'' ''netops'' ''admin''
                 False False True"
  shows "calls A
      = [(Open, Returned), (LoadMergeCandidate ''vlan 10'', Returned),
         (CompareConfig, ReturnedText ''+vlan 10''), (CommitConfig, Returned),
         (GetFacts, Raised runtime_error), (DiscardConfig, Returned), (Close, Returned)]
    \<and> messages Error A
      = [''Unexpected error during deployment: session lost'',
         format_exc env_facts_fail runtime_error]
    \<and> messages Warning A = []"
  unfolding A_def
  by (simp add: eval_facts_fail unexpected_error_msg_def runtime_error_def)

text \<open>
  Claim C6, amended: in every attempt in which \<open>get_facts\<close> raised \<open>e\<close>, the commit had
  returned and its success message is logged; the exception is handled by the \<open>except\<close>
  clause of its kind, which logs it as an error after the success message; for an
  unexpected exception \<open>discard_config\<close> is called once before \<open>close\<close>, and for the
  other kinds \<open>close\<close> follows at once.
\<close>

theorem facts_failure_after_commit:
  fixes env :: "'d env" and show_debug dry_run replace commit :: bool
    and device :: device and config username password :: string
  defines "S \<equiv> attempt env show_debug device config username password dry_run replace commit"
  assumes "(GetFacts, Raised e) \<in> set (calls S)"
  shows "(CommitConfig, Returned) \<in> set (calls S)
    \<and> committed_msg \<in> set (messages Success S)
    \<and> methods S
        = [Open, if replace then LoadReplaceCandidate config else LoadMergeCandidate config,
           CompareConfig, CommitConfig, GetFacts]
          @ (if kind e = OtherException then [DiscardConfig] else []) @ [Close]
    \<and> take 2 (messages Error S)
        = (if kind e = ConnectionException
           then [connection_error_msg e, please_verify_msg]
           else if kind e = OtherException
           then [unexpected_error_msg e, format_exc env e]
           else [deployment_error_msg e, rolled_back_msg])"
proof -
  note P = attempt_paths [of env show_debug device config username password dry_run replace commit,
      folded S_def]
  from P assms have "(CommitConfig, Returned) \<in> set (calls S)
    \<and> committed_msg \<in> set (messages Success S)
    \<and> methods S = [Open, load_call config replace, CompareConfig, CommitConfig, GetFacts]
          @ (if kind e = OtherException then [DiscardConfig] else []) @ [Close]
    \<and> take 2 (messages Error S)
        = (if kind e = ConnectionException
           then [connection_error_msg e, please_verify_msg]
           else if kind e = OtherException
           then [unexpected_error_msg e, format_exc env e]
           else [deployment_error_msg e, rolled_back_msg])"
    unfolding path_defs
    by (elim disjE exE conjE; simp add: methods_def)
  then show ?thesis unfolding load_call_def .
qed

theorem facts_failure_after_commit_witness:
  fixes A :: "unit state"
  defines "A \<equiv> attempt env_facts_fail False lab_device ''vlan 10'' ''netops'' ''admin''
                 False False True"
  shows "(GetFacts, Raised runtime_error) \<in> set (calls A)
    \<and> (CommitConfig, Returned) \<in> set (calls A)
    \<and> committed_msg \<in> set (messages Success A)
    \<and> methods A
        = [Open, LoadMergeCandidate ''vlan 10'', CompareConfig, CommitConfig, GetFacts,
           DiscardConfig, Close]
    \<and> take 2 (messages Error A)
        = [unexpected_error_msg runtime_error, format_exc env_facts_fail runtime_error]"
proof -
  have h: "(GetFacts, Raised runtime_error) \<in> set (calls (attempt env_facts_fail False lab_device
         ''vlan 10'' ''netops'' ''admin'' False False True))"
    by (simp add: eval_facts_fail)
  have k: "kind runtime_error = OtherException" by (simp add: runtime_error_def)
  from facts_failure_after_commit [OF h] h k show ?thesis
    unfolding A_def by simp
qed

subsection \<open>C7: a discard that fails\<close>

text \<open>
  Claim C7 says that a failure of the discard is logged as a warning only and never
  changes what the attempt reports. The job has no handler of its own around the three
  discards of the \<open>try\<close> body, so a discard that raises is handled by the \<open>except\<close>
  clauses and logged as an error; the discard inside the last \<open>except\<close> clause is
  protected, and logs an error too. In the lab runs below the commit is disabled and the
  diff is not empty: with a working \<open>discard_config\<close> (run \<open>A\<close>) no error is logged, with
  a failing one (run \<open>B\<close>) three are, and the only warning is the one logged before the
  discard.
\<close>

theorem discard_failure_changes_report:
  fixes A B :: "unit state"
  defines "A \<equiv> attempt lab_env False lab_device ''vlan 10'' ''netops'' ''admin''
                 False False False"
    and "B \<equiv> attempt env_discard_fails False lab_device ''vlan 10'' ''netops'' ''admin''
             False False False"
  shows "messages Error A = []
    \<and> outcomes DiscardConfig B = [Raised runtime_error, Raised runtime_error]
    \<and> messages Error B
        = [''Unexpected error during deployment: session lost'',
           format_exc env_discard_fails runtime_error,
           ''Could not discard config: session lost'']
    \<and> messages Warning B = [''Commit disabled: Changes loaded but not committed'']"
  unfolding A_def B_def
  by (simp add: eval_commit_disabled outcomes_def unexpected_error_msg_def
        discard_failed_msg_def commit_disabled_warning_def runtime_error_def)

text \<open>
  Claim C7, amended: in every attempt in which a call of \<open>discard_config\<close> raised \<open>e\<close>,
  an error carrying the message of \<open>e\<close> is logged (the connection error, the deployment
  error, the unexpected error or the failed discard of the handler); the exception does
  not leave \<open>_deploy_config\<close>; and \<open>close\<close> is still the last call.
\<close>

theorem discard_failure_reported_as_error:
  fixes env :: "'d env" and show_debug dry_run replace commit :: bool
    and device :: device and config username password :: string
  defines "S \<equiv> attempt env show_debug device config username password dry_run replace commit"
  assumes "(DiscardConfig, Raised e) \<in> set (calls S)"
  shows "(connection_error_msg e \<in> set (messages Error S)
          \<or> deployment_error_msg e \<in> set (messages Error S)
          \<or> unexpected_error_msg e \<in> set (messages Error S)
          \<or> discard_failed_msg e \<in> set (messages Error S))
    \<and> fst (deploy_config env show_debug device config username password dry_run replace
              commit init_state) = Inr ()
    \<and> last (methods S) = Close"
proof -
  note P = attempt_paths [of env show_debug device config username password dry_run replace commit,
      folded S_def]
  from P assms show ?thesis
    unfolding path_defs
    by (elim disjE exE conjE; (auto simp: methods_def)[1])
qed

theorem discard_failure_reported_as_error_witness:
  fixes B :: "unit state"
  defines "B \<equiv> attempt env_discard_fails False lab_device ''vlan 10'' ''netops'' ''admin''
                 False False False"
  shows "(DiscardConfig, Raised runtime_error) \<in> set (calls B)
    \<and> (connection_error_msg runtime_error \<in> set (messages Error B)
        \<or> deployment_error_msg runtime_error \<in> set (messages Error B)
        \<or> unexpected_error_msg runtime_error \<in> set (messages Error B)
        \<or> discard_failed_msg runtime_error \<in> set (messages Error B))
    \<and> fst (deploy_config env_discard_fails False lab_device ''vlan 10'' ''netops'' ''admin''
             False False False init_state) = Inr ()
    \<and> last (methods B) = Close"
proof -
  have h: "(DiscardConfig, Raised runtime_error) \<in> set (calls (attempt env_discard_fails False lab_device
         ''vlan 10'' ''netops'' ''admin'' False False False))"
    by (simp add: eval_commit_disabled)
  from discard_failure_reported_as_error [OF h] h show ?thesis
    unfolding B_def by simp
qed

subsection \<open>C8: the credentials\<close>

text \<open>
  Claim C8: for a device with a secrets group whose store gives a username that is not
  empty and raises for the password, \<open>_get_credentials\<close> returns that username with the
  default password \<open>admin\<close>, and reports the pair as coming from the secrets group: it
  logs the success message naming the group, and not the warning that the secrets could
  not be retrieved.
\<close>

theorem credentials_username_from_store:
  assumes "secrets_group device = Some g"
    and "get_secret_value env g TYPE_USERNAME device = Inr u" and "u \<noteq> []"
    and "get_secret_value env g TYPE_PASSWORD device = Inl e"
  shows "fst (get_credentials env show_debug device s) = (u, ''admin'')
    \<and> messages Success (snd (get_credentials env show_debug device s))
        = messages Success s @ [username_retrieved_msg u, using_group_msg g]
    \<and> messages Warning (snd (get_credentials env show_debug device s)) = messages Warning s"
  using assms
  by (simp add: get_credentials_def username_from_group_def password_from_group_def)

theorem credentials_username_from_store_witness:
  "secrets_group lab_device = Some ''lab''
   \<and> get_secret_value lab_env ''lab'' TYPE_USERNAME lab_device = Inr ''netops''
   \<and> ''netops'' \<noteq> []
   \<and> get_secret_value lab_env ''lab'' TYPE_PASSWORD lab_device = Inl secret_error
   \<and> fst (get_credentials lab_env False lab_device init_state) = (''netops'', ''admin'')
   \<and> messages Success (snd (get_credentials lab_env False lab_device init_state))
       = [username_retrieved_msg ''netops'', using_group_msg ''lab'']
   \<and> messages Warning (snd (get_credentials lab_env False lab_device init_state)) = []"
proof -
  have h1: "secrets_group lab_device = Some ''lab''"
    by (simp add: lab_device_def)
  have h2: "get_secret_value lab_env ''lab'' TYPE_USERNAME lab_device = Inr ''netops''"
    by (simp add: lab_env_def)
  have h3: "''netops'' \<noteq> []" by simp
  have h4: "get_secret_value lab_env ''lab'' TYPE_PASSWORD lab_device = Inl secret_error"
    by (simp add: lab_env_def)
  from credentials_username_from_store [OF h1 h2 h3 h4, of False init_state] h1 h2 h4
  show ?thesis by simp
qed

subsection \<open>C9: no intended configuration\<close>

text \<open>
  Claim C9 says that a request whose candidate configuration is empty or unavailable is
  stopped before any connection is attempted, and that an empty candidate is an
  immediate no-op with an outcome of its own, no change requested. The first part
  holds. The second does not: the job has one way out for an empty and for a missing
  intended configuration, taken after the device was validated and its credentials
  resolved, and it is an error. In the lab run below the Golden Config record of the
  device has an empty intended configuration: nothing is called on a driver, the secret
  store has been read, and two errors are logged.
\<close>

theorem empty_config_is_an_error:
  fixes R :: "(exn + unit) \<times> unit state"
  defines "R \<equiv> run env_empty_config lab_device False False True False init_state"
  shows "calls (snd R) = []
    \<and> messages Error (snd R)
        = [''Please run the Golden Config 'Generate Intended Configurations' job first'',
           ''No intended configuration available. Cannot proceed.'']
    \<and> messages Warning (snd R) = [''Golden Config record exists but has no intended config'']
    \<and> messages Success (snd R)
        = [validation_passed_msg, username_retrieved_msg ''netops'', using_group_msg ''lab'']"
  unfolding R_def
  by (simp add: eval_empty_config run_generate_first_msg_def no_config_msg_def
        no_intended_msg_def)

text \<open>
  Claim C9, amended: when \<open>_get_intended_config\<close> gives no configuration (the plugin or
  the record is missing, or the intended configuration of the record is empty: in each
  case it returns \<open>None\<close>), \<open>run\<close> stops before any connection is attempted: no driver
  method is called and \<open>run\<close> returns; the outcome is an error: for a device that passed
  validation the last record logged is the error that no intended configuration is
  available.
\<close>

theorem no_config_no_connection:
  fixes env :: "'d env"
  assumes "fst (get_intended_config env show_debug device init_state) = None"
  shows "calls (snd (run env device dry_run replace_config commit_changes show_debug
                      init_state)) = []
    \<and> fst (run env device dry_run replace_config commit_changes show_debug init_state) = Inr ()
    \<and> (fst (validate_device show_debug device (init_state :: 'd state)) \<longrightarrow>
          last (logs (snd (run env device dry_run replace_config commit_changes show_debug
                             init_state))) = (Error, no_config_msg))"
proof -
  let ?s0 = "log_info show_debug rule_equals
               (log_info show_debug (starting_msg (name device))
                  (log_info show_debug rule_equals (init_state :: 'd state)))"
  obtain ok s1 where v: "validate_device show_debug device ?s0 = (ok, s1)"
    by (cases "validate_device show_debug device ?s0")
  obtain u p s2 where c: "get_credentials env show_debug device s1 = ((u, p), s2)"
    by (cases "get_credentials env show_debug device s1") auto
  obtain i s3 where g: "get_intended_config env show_debug device s2 = (i, s3)"
    by (cases "get_intended_config env show_debug device s2")
  have "i = fst (get_intended_config env show_debug device (init_state :: 'd state))"
    using g get_intended_config_result [of env show_debug device s2]
      get_intended_config_result [of env show_debug device "init_state :: 'd state"] by simp
  with assms have i: "i = None" by simp
  have "fst (validate_device show_debug device ?s0)
      = fst (validate_device show_debug device (init_state :: 'd state))"
    by (simp only: validate_device_result)
  with v have ok: "ok = fst (validate_device show_debug device (init_state :: 'd state))"
    by simp
  have c1: "calls s1 = []"
    using validate_device_calls [of show_debug device ?s0] v by simp
  have c2: "calls s2 = []"
    using get_credentials_calls [of env show_debug device s1] c c1 by simp
  have c3: "calls s3 = []"
    using get_intended_config_calls [of env show_debug device s2] g c2 by simp
  show ?thesis
  proof (cases ok)
    case False
    with v c1 ok show ?thesis by (simp add: run_def)
  next
    case True
    with v c g i c3 ok show ?thesis by (auto simp: run_def)
  qed
qed

theorem no_config_no_connection_witness:
  "fst (get_intended_config env_empty_config False lab_device init_state) = None
   \<and> fst (validate_device False lab_device (init_state :: unit state))
   \<and> calls (snd (run env_empty_config lab_device False False True False init_state)) = []
   \<and> fst (run env_empty_config lab_device False False True False init_state) = Inr ()
   \<and> last (logs (snd (run env_empty_config lab_device False False True False init_state)))
       = (Error, no_config_msg)"
proof -
  have h1: "fst (get_intended_config env_empty_config False lab_device init_state) = None"
    by (simp add: get_intended_config_result lab_defs)
  have h2: "fst (validate_device False lab_device (init_state :: unit state))"
    by (simp add: validate_device_result lab_defs)
  from no_config_no_connection [OF h1, of False False True] h1 h2
  show ?thesis by simp
qed

subsection \<open>C10: failures of the deployment do not stop the job\<close>

text \<open>
  Claim C10 says that \<open>_deploy_config\<close> never raises to its caller, for any input, so that
  \<open>run\<close> always ends with its success message. The statements before the \<open>try\<close> can
  raise: when the optional arguments of the platform are a text that is not JSON,
  \<open>json.loads\<close> at line 315 raises, the exception leaves \<open>_deploy_config\<close> and \<open>run\<close>, and
  the success message is not logged. In the lab run below the optional arguments are
  the text \<open>{\<close>.
\<close>

theorem bad_optional_args_raise:
  "fst (deploy_config lab_env False bad_args_device ''vlan 10'' ''netops'' ''admin''
          True False True init_state) = Inl json_error
   \<and> fst (run lab_env bad_args_device True False True False init_state) = Inl json_error
   \<and> completed_msg ''r1''
       \<notin> set (messages Success (snd (run lab_env bad_args_device True False True False
                                        init_state)))"
  by (simp add: eval_bad_args completed_msg_def validation_passed_msg_def
        username_retrieved_msg_def using_group_msg_def found_config_msg_def check_mark_def)

text \<open>
  Claim C10, amended: for every device with a platform and a primary address whose
  optional arguments are accepted (they are not a text that \<open>json.loads\<close> rejects),
  \<open>_deploy_config\<close> returns to its caller, whatever the driver does: every exception
  raised inside the \<open>try\<close> is caught and logged. So, when the device also has a NAPALM
  driver and an intended configuration, \<open>run\<close> returns and the last success message it
  logs is that provisioning completed, whether or not the deployment failed.
\<close>

theorem deployment_failure_still_completes:
  fixes env :: "'d env"
  assumes "platform device = Some p" and "primary_ip4 device = Some ip"
    and "parse_optional_args env p = Inr a"
  shows "fst (deploy_config env show_debug device config username password dry_run replace
                commit s) = Inr ()
    \<and> (napalm_driver p \<noteq> []
          \<and> fst (get_intended_config env show_debug device init_state) = Some config
          \<and> config \<noteq> [] \<longrightarrow>
        fst (run env device dry_run replace commit show_debug init_state) = Inr ()
        \<and> last (messages Success (snd (run env device dry_run replace commit show_debug
                                        init_state))) = completed_msg (name device))"
proof -
  have A: "fst (deploy_config env show_debug device config username password dry_run replace
               commit s) = Inr ()"
    using deploy_config_returns [OF assms] .
  have B: "fst (run env device dry_run replace commit show_debug init_state) = Inr ()
        \<and> last (messages Success (snd (run env device dry_run replace commit show_debug
                                        init_state))) = completed_msg (name device)"
    if h: "napalm_driver p \<noteq> []
      \<and> fst (get_intended_config env show_debug device init_state) = Some config
      \<and> config \<noteq> []"
  proof -
    let ?s0 = "log_info show_debug rule_equals
                 (log_info show_debug (starting_msg (name device))
                    (log_info show_debug rule_equals (init_state :: 'd state)))"
    obtain ok s1 where v: "validate_device show_debug device ?s0 = (ok, s1)"
      by (cases "validate_device show_debug device ?s0")
    have "fst (validate_device show_debug device ?s0)"
      using assms h by (simp add: validate_device_result)
    with v have ok: "ok" by simp
    obtain u pw s2 where c: "get_credentials env show_debug device s1 = ((u, pw), s2)"
      by (cases "get_credentials env show_debug device s1") auto
    obtain i s3 where g: "get_intended_config env show_debug device s2 = (i, s3)"
      by (cases "get_intended_config env show_debug device s2")
    have "i = fst (get_intended_config env show_debug device (init_state :: 'd state))"
      using g get_intended_config_result [of env show_debug device s2]
        get_intended_config_result [of env show_debug device "init_state :: 'd state"] by simp
    with h have i: "i = Some config" "config \<noteq> []" by simp_all
    obtain r s4 where d: "deploy_config env show_debug device config u pw dry_run replace
        commit s3 = (r, s4)"
      by (cases "deploy_config env show_debug device config u pw dry_run replace commit s3")
    have "fst (deploy_config env show_debug device config u pw dry_run replace commit s3)
        = Inr ()"
      by (rule deploy_config_returns [OF assms])
    with d have r: "r = Inr ()" by simp
    from v ok c g i d r show ?thesis by (simp add: run_def)
  qed
  from A B show ?thesis by blast
qed

theorem deployment_failure_still_completes_witness:
  "platform lab_device = Some lab_platform
   \<and> primary_ip4 lab_device = Some ''10.0.0.1''
   \<and> parse_optional_args env_open_fails lab_platform = Inr (ArgsDict [])
   \<and> napalm_driver lab_platform \<noteq> []
   \<and> fst (get_intended_config env_open_fails False lab_device init_state) = Some ''vlan 10''
   \<and> ''vlan 10'' \<noteq> []
   \<and> fst (deploy_config env_open_fails False lab_device ''vlan 10'' ''netops'' ''admin''
            True False True init_state) = Inr ()
   \<and> fst (run env_open_fails lab_device True False True False init_state) = Inr ()
   \<and> last (messages Success (snd (run env_open_fails lab_device True False True False
                                     init_state))) = completed_msg ''r1''
   \<and> messages Error (snd (run env_open_fails lab_device True False True False init_state))
       = [connection_error_msg timeout_error, please_verify_msg]"
proof -
  have h1: "platform lab_device = Some lab_platform"
    and h2: "primary_ip4 lab_device = Some ''10.0.0.1''"
    by (simp_all add: lab_device_def)
  have h3: "parse_optional_args env_open_fails lab_platform = Inr (ArgsDict [])"
    by (simp add: parse_optional_args_def lab_platform_def)
  have h4: "napalm_driver lab_platform \<noteq> []"
    by (simp add: lab_platform_def)
  have h5: "fst (get_intended_config env_open_fails False lab_device init_state)
      = Some ''vlan 10''"
    by (simp add: get_intended_config_result lab_defs)
  have n: "name lab_device = ''r1''" by (simp add: lab_device_def)
  from deployment_failure_still_completes [OF h1 h2 h3, where show_debug = False
      and config = "''vlan 10''" and username = "''netops''" and password = "''admin''"
      and dry_run = True and replace = False and commit = True and s = init_state]
    h1 h2 h3 h4 h5 n eval_open_fails_run(2)
  show ?thesis by simp
qed

end
